theory Spec2Isabelle
  imports Complex_Main
begin

section \<open>JavaScript values, objects and the object heap\<close>

text \<open>
  Numbers are IEEE doubles in the source; here they are exact rationals extended with the
  two infinities and NaN, so that a division by zero is a value of the model.
  Objects are finite maps from property names to values. Only own properties are
  modelled (no prototype chain): what is stated of a dotted path is stated for keys that
  name no inherited property (\<open>plain_key\<close>, below). Nested objects live in a heap and
  are referred to by address, so that two snapshots can share one container.
\<close>

type_synonym addr = nat

datatype num = Fin rat | PInf | NInf | NaN

datatype val = Undefined | Null | Bool bool | Num num | Str string | Ref addr

type_synonym obj = "string \<rightharpoonup> val"

datatype exn = TypeError | RangeError | Thrown string

fun truthy :: "val \<Rightarrow> bool" where
  "truthy Undefined = False"
| "truthy Null = False"
| "truthy (Bool b) = b"
| "truthy (Num n) = (n \<noteq> Fin 0 \<and> n \<noteq> NaN)"
| "truthy (Str s) = (s \<noteq> [])"
| "truthy (Ref a) = True"

definition getp :: "obj \<Rightarrow> string \<Rightarrow> val" where
  "getp ob k = (case ob k of None \<Rightarrow> Undefined | Some v \<Rightarrow> v)"

definition deref :: "obj list \<Rightarrow> addr \<Rightarrow> obj" where
  "deref h a = (if a < length h then h ! a else Map.empty)"

text \<open>\<open>current[k]\<close>: a property read. A primitive has no own properties.\<close>

fun get_prop :: "obj list \<Rightarrow> val \<Rightarrow> string \<Rightarrow> val" where
  "get_prop h (Ref a) k = getp (deref h a) k"
| "get_prop h _ k = Undefined"

text \<open>\<open>current[k] = v\<close> in strict mode (a class body): a TypeError on a primitive.\<close>

fun set_prop :: "obj list \<Rightarrow> val \<Rightarrow> string \<Rightarrow> val \<Rightarrow> exn + obj list" where
  "set_prop h (Ref a) k v = Inr (h[a := (deref h a)(k \<mapsto> v)])"
| "set_prop h _ k v = Inl TypeError"

text \<open>\<open>path.split(".")\<close>\<close>

fun split_dot :: "string \<Rightarrow> string list" where
  "split_dot [] = [[]]"
| "split_dot (c # cs) =
     (if c = CHR ''.'' then [] # split_dot cs
      else (case split_dot cs of [] \<Rightarrow> [[c]] | w # ws \<Rightarrow> (c # w) # ws))"

section \<open>StateManager\<close>

text \<open>
  The class \<open>StateManager\<close>. The current snapshot \<open>this.state\<close> is never mutated at its
  top level (every mutation installs a new object), so it is held as a value; the nested
  containers it refers to are on the heap. \<open>this.listeners\<close> is a JavaScript \<open>Set\<close>:
  insertion ordered, without duplicates; listeners are function references, here
  numbers, and a table \<open>B\<close> gives what each one does when called: the new page and the
  exception it threw, if any. \<open>console\<close> is what \<open>console.error\<close> has printed from
  \<open>notifyListeners\<close>, \<open>calls\<close> records each listener call with its arguments.
  \<open>notifyListeners\<close> goes through the listeners that are subscribed when it starts;
  listeners are taken not to subscribe or unsubscribe while they are being notified
  (\<open>notifyListeners_live\<close>, below, is the pass without this assumption on
  unsubscriptions).
\<close>

record store =
  state :: obj
  heap :: "obj list"
  listeners :: "nat list"
  console :: "(string \<times> exn) list"
  calls :: "(nat \<times> obj \<times> obj \<times> string) list"

type_synonym 'a listener =
  "obj \<Rightarrow> obj \<Rightarrow> string \<Rightarrow> 'a store_scheme \<Rightarrow> 'a store_scheme \<times> exn option"

definition getState :: "'a store_scheme \<Rightarrow> obj" where
  "getState s = state s"

fun notifyListeners ::
  "(nat \<Rightarrow> 'a listener) \<Rightarrow> nat list \<Rightarrow> obj \<Rightarrow> obj \<Rightarrow> string \<Rightarrow> 'a store_scheme \<Rightarrow> 'a store_scheme" where
  "notifyListeners B [] prevState newState source s = s"
| "notifyListeners B (l # ls) prevState newState source s =
     (case B l prevState newState source
             (s\<lparr>calls := calls s @ [(l, prevState, newState, source)]\<rparr>) of
        (s', None) \<Rightarrow> notifyListeners B ls prevState newState source s'
      | (s', Some e) \<Rightarrow>
          notifyListeners B ls prevState newState source
            (s'\<lparr>console := console s' @ [(''State listener error:'', e)]\<rparr>))"

definition setState ::
  "(nat \<Rightarrow> 'a listener) \<Rightarrow> obj \<Rightarrow> string \<Rightarrow> 'a store_scheme \<Rightarrow> 'a store_scheme" where
  "setState B newState source s =
     (let prevState = state s;
          s' = s\<lparr>state := state s ++ newState\<rparr>
      in notifyListeners B (listeners s') prevState (state s') source s')"

text \<open>
  \<open>updateState\<close>. \<open>newState\<close> is a new object that nothing refers to, so it is held as a
  value and the step of the loop that acts on it (\<open>i = 0\<close>, or the final assignment for a
  path of one key) is written out; \<open>assign_path\<close> is the rest of the loop and the final
  assignment, on objects of the heap. An exception leaves \<open>updateState\<close> before
  \<open>setState\<close>: the snapshot stays, and a container made on the way is unreachable.
\<close>

fun assign_path :: "obj list \<Rightarrow> val \<Rightarrow> string list \<Rightarrow> val \<Rightarrow> exn + obj list" where
  "assign_path h current [] v = Inr h"
| "assign_path h current [k] v = set_prop h current k v"
| "assign_path h current (k # k' # ks) v =
     (if \<not> truthy (get_prop h current k) then
        (case set_prop (h @ [Map.empty]) current k (Ref (length h)) of
           Inl e \<Rightarrow> Inl e
         | Inr h' \<Rightarrow> assign_path h' (Ref (length h)) (k' # ks) v)
      else assign_path h (get_prop h current k) (k' # ks) v)"

definition updateState ::
  "(nat \<Rightarrow> 'a listener) \<Rightarrow> string \<Rightarrow> val \<Rightarrow> 'a store_scheme \<Rightarrow> 'a store_scheme \<times> exn option" where
  "updateState B path v s =
     (let keys = split_dot path;
          newState = state s;
          k = hd keys
      in if tl keys = [] then
           (setState B (newState(k \<mapsto> v)) (''update:'' @ path) s, None)
         else if \<not> truthy (getp newState k) then
           (case assign_path (heap s @ [Map.empty]) (Ref (length (heap s))) (tl keys) v of
              Inl e \<Rightarrow> (s, Some e)
            | Inr h' \<Rightarrow>
                (setState B (newState(k \<mapsto> Ref (length (heap s)))) (''update:'' @ path)
                   (s\<lparr>heap := h'\<rparr>), None))
         else
           (case assign_path (heap s) (getp newState k) (tl keys) v of
              Inl e \<Rightarrow> (s, Some e)
            | Inr h' \<Rightarrow> (setState B newState (''update:'' @ path) (s\<lparr>heap := h'\<rparr>), None)))"

definition subscribe :: "nat \<Rightarrow> 'a store_scheme \<Rightarrow> 'a store_scheme" where
  "subscribe l s = (if l \<in> set (listeners s) then s else s\<lparr>listeners := listeners s @ [l]\<rparr>)"







section \<open>Number operations\<close>

text \<open>
  Arithmetic on numbers, exact on finite values. The sign of a zero is not represented:
  a finite value divided by zero is taken as divided by \<open>+0\<close>.
\<close>

fun num_add :: "num \<Rightarrow> num \<Rightarrow> num" where
  "num_add (Fin x) (Fin y) = Fin (x + y)"
| "num_add NaN _ = NaN"
| "num_add _ NaN = NaN"
| "num_add PInf NInf = NaN"
| "num_add NInf PInf = NaN"
| "num_add PInf _ = PInf"
| "num_add NInf _ = NInf"
| "num_add _ PInf = PInf"
| "num_add _ NInf = NInf"

fun num_neg :: "num \<Rightarrow> num" where
  "num_neg (Fin x) = Fin (- x)"
| "num_neg PInf = NInf"
| "num_neg NInf = PInf"
| "num_neg NaN = NaN"

definition num_sub :: "num \<Rightarrow> num \<Rightarrow> num" where
  "num_sub a b = num_add a (num_neg b)"

fun num_mul :: "num \<Rightarrow> num \<Rightarrow> num" where
  "num_mul (Fin x) (Fin y) = Fin (x * y)"
| "num_mul NaN _ = NaN"
| "num_mul _ NaN = NaN"
| "num_mul PInf (Fin y) = (if y = 0 then NaN else if 0 < y then PInf else NInf)"
| "num_mul NInf (Fin y) = (if y = 0 then NaN else if 0 < y then NInf else PInf)"
| "num_mul (Fin x) PInf = (if x = 0 then NaN else if 0 < x then PInf else NInf)"
| "num_mul (Fin x) NInf = (if x = 0 then NaN else if 0 < x then NInf else PInf)"
| "num_mul PInf PInf = PInf"
| "num_mul NInf NInf = PInf"
| "num_mul PInf NInf = NInf"
| "num_mul NInf PInf = NInf"

fun num_div :: "num \<Rightarrow> num \<Rightarrow> num" where
  "num_div (Fin x) (Fin y) =
     (if y \<noteq> 0 then Fin (x / y) else if x = 0 then NaN else if 0 < x then PInf else NInf)"
| "num_div NaN _ = NaN"
| "num_div _ NaN = NaN"
| "num_div (Fin x) PInf = Fin 0"
| "num_div (Fin x) NInf = Fin 0"
| "num_div PInf (Fin y) = (if 0 \<le> y then PInf else NInf)"
| "num_div NInf (Fin y) = (if 0 \<le> y then NInf else PInf)"
| "num_div PInf PInf = NaN"
| "num_div PInf NInf = NaN"
| "num_div NInf PInf = NaN"
| "num_div NInf NInf = NaN"

fun num_abs :: "num \<Rightarrow> num" where
  "num_abs (Fin x) = Fin \<bar>x\<bar>"
| "num_abs PInf = PInf"
| "num_abs NInf = PInf"
| "num_abs NaN = NaN"

fun num_less :: "num \<Rightarrow> num \<Rightarrow> bool" where
  "num_less (Fin x) (Fin y) = (x < y)"
| "num_less NaN _ = False"
| "num_less _ NaN = False"
| "num_less NInf NInf = False"
| "num_less NInf _ = True"
| "num_less _ NInf = False"
| "num_less PInf _ = False"
| "num_less _ PInf = True"

definition num_ge :: "num \<Rightarrow> num \<Rightarrow> bool" where
  "num_ge a b = (a = b \<and> a \<noteq> NaN \<or> num_less b a)"

text \<open>
  \<open>ToNumber\<close> on the values the program holds. The text of a string is not parsed and an
  object is not converted by its methods; both give NaN here.
\<close>

fun to_num :: "val \<Rightarrow> num" where
  "to_num (Num n) = n"
| "to_num Null = Fin 0"
| "to_num (Bool b) = Fin (if b then 1 else 0)"
| "to_num Undefined = NaN"
| "to_num (Str s) = NaN"
| "to_num (Ref a) = NaN"

text \<open>\<open>v + 1\<close>: string concatenation when \<open>v\<close> is a string or an object.\<close>

fun plus_one :: "val \<Rightarrow> val" where
  "plus_one (Str s) = Str (s @ ''1'')"
| "plus_one (Ref a) = Str ''[object Object]1''"
| "plus_one v = Num (num_add (to_num v) (Fin 1))"


section \<open>The page: DOM elements, timers, requests, trails\<close>

text \<open>
  What an element shows is kept as the number and the number of decimals it was
  formatted with (\<open>toFixed\<close>), not as characters. The source skips a write whose text
  equals the present one; the DOM after it is the same as after the write, which is what
  the model does. An input's value is kept as the value assigned to it.
\<close>

datatype shown = Lit string | Fixed nat num | FixedPct nat num | OfVal val

record elem =
  textContent :: shown
  inputValue :: val
  color :: string
  className :: string

text \<open>
  The callback of a debounce timer closes over the field name, the parsed number and
  the \<open>timeouts\<close> object read when the timer was started.
\<close>

datatype callback = ParamCb string num val | CondCb string num val

record timer =
  tid :: nat
  due :: nat
  cb :: callback

record app = store +
  document :: "string \<rightharpoonup> elem"
  timers :: "timer list"
  next_timer :: nat
  clock :: nat
  requests :: "(string \<times> string \<times> num) list"
  trail1 :: "(val \<times> val) list"
  trail2 :: "(val \<times> val) list"

type_synonym app_listener = "unit app_ext listener"

definition then_do :: "'s \<times> exn option \<Rightarrow> ('s \<Rightarrow> 's \<times> exn option) \<Rightarrow> 's \<times> exn option" where
  "then_do r f = (case r of (s, None) \<Rightarrow> f s | (s, Some e) \<Rightarrow> (s, Some e))"

definition try_val :: "exn + 'a \<Rightarrow> 's \<Rightarrow> ('a \<Rightarrow> 's \<times> exn option) \<Rightarrow> 's \<times> exn option" where
  "try_val r s f = (case r of Inl e \<Rightarrow> (s, Some e) | Inr v \<Rightarrow> f v)"

text \<open>A property read that throws on \<open>null\<close> and \<open>undefined\<close>.\<close>

fun read_prop :: "obj list \<Rightarrow> val \<Rightarrow> string \<Rightarrow> exn + val" where
  "read_prop h Undefined k = Inl TypeError"
| "read_prop h Null k = Inl TypeError"
| "read_prop h v k = Inr (get_prop h v k)"

fun toFixed :: "val \<Rightarrow> nat \<Rightarrow> exn + shown" where
  "toFixed (Num n) d = Inr (Fixed d n)"
| "toFixed _ d = Inl TypeError"

text \<open>\<open>if (el) el.textContent = container.k.toFixed(d)\<close>\<close>

definition put_fixed :: "string \<Rightarrow> val \<Rightarrow> string \<Rightarrow> nat \<Rightarrow> app \<Rightarrow> app \<times> exn option" where
  "put_fixed ident container k d s =
     (case document s ident of
        None \<Rightarrow> (s, None)
      | Some el \<Rightarrow>
          (case read_prop (heap s) container k of
             Inl e \<Rightarrow> (s, Some e)
           | Inr v \<Rightarrow>
               (case toFixed v d of
                  Inl e \<Rightarrow> (s, Some e)
                | Inr t \<Rightarrow> (s\<lparr>document := (document s)(ident \<mapsto> el\<lparr>textContent := t\<rparr>)\<rparr>, None))))"

text \<open>\<open>if (el && el.textContent !== (v || 0).toFixed(d)) el.textContent = (v || 0).toFixed(d)\<close>\<close>

definition put_or0 :: "string \<Rightarrow> val \<Rightarrow> nat \<Rightarrow> app \<Rightarrow> app \<times> exn option" where
  "put_or0 ident v d s =
     (case document s ident of
        None \<Rightarrow> (s, None)
      | Some el \<Rightarrow>
          (case toFixed (if truthy v then v else Num (Fin 0)) d of
             Inl e \<Rightarrow> (s, Some e)
           | Inr t \<Rightarrow> (s\<lparr>document := (document s)(ident \<mapsto> el\<lparr>textContent := t\<rparr>)\<rparr>, None)))"

text \<open>\<open>if (el && Number(el.value) !== container.k) el.value = container.k\<close>\<close>

definition sync_input :: "string \<Rightarrow> val \<Rightarrow> string \<Rightarrow> app \<Rightarrow> app \<times> exn option" where
  "sync_input ident container k s =
     (case document s ident of
        None \<Rightarrow> (s, None)
      | Some el \<Rightarrow>
          (case read_prop (heap s) container k of
             Inl e \<Rightarrow> (s, Some e)
           | Inr v \<Rightarrow> (s\<lparr>document := (document s)(ident \<mapsto> el\<lparr>inputValue := v\<rparr>)\<rparr>, None)))"

definition set_text :: "string \<Rightarrow> shown \<Rightarrow> app \<Rightarrow> app" where
  "set_text ident t s =
     (case document s ident of
        None \<Rightarrow> s
      | Some el \<Rightarrow> s\<lparr>document := (document s)(ident \<mapsto> el\<lparr>textContent := t\<rparr>)\<rparr>)"

section \<open>Display Binder\<close>

definition conservationError :: "val \<Rightarrow> val \<Rightarrow> num" where
  "conservationError total_e initialEnergy =
     num_abs (num_mul (num_div (num_sub (to_num total_e) (to_num initialEnergy))
                               (to_num initialEnergy)) (Fin 100))"

definition error_color :: "num \<Rightarrow> string" where
  "error_color ce =
     (if num_less ce (Fin (1 / 10)) then ''#4caf50''
      else if num_less ce (Fin 1) then ''#ff9800''
      else ''#f44336'')"

text \<open>
  \<open>state\<close> is the snapshot read on entry; the \<open>setState\<close> of \<open>initialEnergy\<close> installs a new
  snapshot and notifies the listeners, and the error is then computed from \<open>state\<close>.
\<close>

definition updateEnergyDisplay :: "(nat \<Rightarrow> app_listener) \<Rightarrow> app \<Rightarrow> app \<times> exn option" where
  "updateEnergyDisplay B s =
     (let st = getState s; energy = getp st ''latestEnergy'' in
      if \<not> truthy energy then (s, None)
      else
        then_do (put_fixed ''kinetic-energy'' energy ''kinetic'' 2 s) (\<lambda>s.
        then_do (put_fixed ''potential-energy'' energy ''potential'' 2 s) (\<lambda>s.
        then_do (put_fixed ''total-energy'' energy ''total'' 2 s) (\<lambda>s.
          let total_e = get_prop (heap s) energy ''total'';
              s = (if getp st ''initialEnergy'' = Null
                   then setState B [''initialEnergy'' \<mapsto> total_e] ''energy_init'' s
                   else s);
              ce = conservationError total_e (getp st ''initialEnergy'')
          in (case document s ''energy-error'' of
                None \<Rightarrow> (s, None)
              | Some el \<Rightarrow>
                  (s\<lparr>document := (document s)(''energy-error'' \<mapsto>
                       el\<lparr>textContent := FixedPct 2 ce, color := error_color ce\<rparr>)\<rparr>, None))))))"

text \<open>\<open>simulationState?.k ?? state.conditions.k\<close>, for a truthy \<open>simulationState\<close>\<close>

definition sim_or_condition :: "obj list \<Rightarrow> val \<Rightarrow> val \<Rightarrow> string \<Rightarrow> exn + val" where
  "sim_or_condition h simulationState conditions k =
     (let v = get_prop h simulationState k in
      if v = Undefined \<or> v = Null then read_prop h conditions k else Inr v)"

definition updateAngularDisplay :: "val \<Rightarrow> app \<Rightarrow> app \<times> exn option" where
  "updateAngularDisplay simulationState s =
     (let conditions = getp (getState s) ''conditions''; h = heap s in
        try_val (sim_or_condition h simulationState conditions ''theta_1'') s (\<lambda>theta1.
        try_val (sim_or_condition h simulationState conditions ''theta_2'') s (\<lambda>theta2.
        try_val (sim_or_condition h simulationState conditions ''omega_1'') s (\<lambda>omega1.
        try_val (sim_or_condition h simulationState conditions ''omega_2'') s (\<lambda>omega2.
        then_do (put_or0 ''theta-1'' theta1 2 s) (\<lambda>s.
        then_do (put_or0 ''theta-2'' theta2 2 s) (\<lambda>s.
        then_do (put_or0 ''omega-1'' omega1 2 s) (\<lambda>s.
        then_do (put_or0 ''omega-2'' omega2 2 s) (\<lambda>s.
        then_do (put_or0 ''theta-1-display'' theta1 1 s) (\<lambda>s.
        then_do (put_or0 ''theta-2-display'' theta2 1 s) (\<lambda>s.
        then_do (put_or0 ''omega-1-display'' omega1 1 s) (\<lambda>s.
        put_or0 ''omega-2-display'' omega2 1 s))))))))))))"

definition updateParameterDisplays :: "app \<Rightarrow> app \<times> exn option" where
  "updateParameterDisplays s =
     (let parameters = getp (getState s) ''parameters'' in
        then_do (put_fixed ''length-1'' parameters ''length_rod_1'' 0 s) (\<lambda>s.
        then_do (put_fixed ''length-2'' parameters ''length_rod_2'' 0 s) (\<lambda>s.
        then_do (put_fixed ''mass-1'' parameters ''mass_bob_1'' 0 s) (\<lambda>s.
        then_do (put_fixed ''mass-2'' parameters ''mass_bob_2'' 0 s) (\<lambda>s.
        put_fixed ''gravity'' parameters ''g'' 1 s)))))"

definition updateSliderInputs :: "app \<Rightarrow> app \<times> exn option" where
  "updateSliderInputs s =
     (let parameters = getp (getState s) ''parameters'';
          conditions = getp (getState s) ''conditions'' in
        then_do (sync_input ''length-1-input'' parameters ''length_rod_1'' s) (\<lambda>s.
        then_do (sync_input ''length-2-input'' parameters ''length_rod_2'' s) (\<lambda>s.
        then_do (sync_input ''mass-1-input'' parameters ''mass_bob_1'' s) (\<lambda>s.
        then_do (sync_input ''mass-2-input'' parameters ''mass_bob_2'' s) (\<lambda>s.
        then_do (sync_input ''gravity-input'' parameters ''g'' s) (\<lambda>s.
        then_do (sync_input ''theta-1-input'' conditions ''theta_1'' s) (\<lambda>s.
        then_do (sync_input ''theta-2-input'' conditions ''theta_2'' s) (\<lambda>s.
        then_do (sync_input ''omega-1-input'' conditions ''omega_1'' s) (\<lambda>s.
        sync_input ''omega-2-input'' conditions ''omega_2'' s)))))))))"

definition updateConnectionStatus :: "val \<Rightarrow> app \<Rightarrow> app" where
  "updateConnectionStatus isConn s =
     (let s = (case document s ''connection-status'' of
                 None \<Rightarrow> s
               | Some el \<Rightarrow> s\<lparr>document := (document s)(''connection-status'' \<mapsto>
                     el\<lparr>className := (if truthy isConn then ''status-indicator''
                                        else ''status-indicator error'')\<rparr>)\<rparr>)
      in set_text ''status-text''
           (Lit (if truthy isConn then ''Connected'' else ''Connection Lost'')) s)"

definition updateAllDisplays :: "(nat \<Rightarrow> app_listener) \<Rightarrow> app \<Rightarrow> app \<times> exn option" where
  "updateAllDisplays B s =
     (let st = getState s in
        then_do (if truthy (getp st ''latestEnergy'') then updateEnergyDisplay B s else (s, None)) (\<lambda>s.
        then_do (if truthy (getp st ''simulationState'')
                 then updateAngularDisplay (getp st ''simulationState'') s else (s, None)) (\<lambda>s.
        then_do (updateParameterDisplays s) (\<lambda>s.
        then_do (updateSliderInputs s) (\<lambda>s.
        (updateConnectionStatus (getp st ''isConnected'') s, None))))))"

text \<open>
  The listener subscribed at load time. A listener that changes the store is called
  again from inside its own call; the first argument bounds how deep such calls nest
  before the engine's call stack is exhausted, which throws a RangeError.
\<close>

primrec display_listener :: "nat \<Rightarrow> app_listener" where
  "display_listener 0 = (\<lambda>prevState newState source s. (s, Some RangeError))"
| "display_listener (Suc d) = (\<lambda>prevState newState source s.
     if source \<noteq> ''local_update'' then updateAllDisplays (\<lambda>l. display_listener d) s
     else (s, None))"


section \<open>Connection Monitor and Sync Engine\<close>

definition maxRetries :: num where
  "maxRetries = Fin 5"

definition handleConnectionError :: "(nat \<Rightarrow> 'a listener) \<Rightarrow> 'a store_scheme \<Rightarrow> 'a store_scheme" where
  "handleConnectionError B s =
     (let st = getState s;
          newRetries = plus_one (getp st ''connectionRetries'');
          s = setState B [''connectionRetries'' \<mapsto> newRetries] ''connection_error'' s
      in if num_ge (to_num newRetries) maxRetries \<and> truthy (getp st ''isConnected'')
         then setState B [''isConnected'' \<mapsto> Bool False] ''connection_lost'' s
         else s)"

text \<open>
  The body of a response as parsed by \<open>response.json()\<close>: every object and array of it
  is a new object on the heap; an array has its items under their indices.
\<close>

datatype json = JNull | JBool bool | JNum rat | JStr string | JArr "json list" | JObj "(string \<times> json) list"

fun index_key :: "nat \<Rightarrow> string" where
  "index_key i =
     (if i < 10 then [''0123456789'' ! i]
      else index_key (i div 10) @ [''0123456789'' ! (i mod 10)])"

declare index_key.simps [simp del]

fun alloc_json :: "obj list \<Rightarrow> json \<Rightarrow> val \<times> obj list"
and alloc_members :: "obj list \<Rightarrow> obj \<Rightarrow> (string \<times> json) list \<Rightarrow> obj \<times> obj list"
and alloc_items :: "obj list \<Rightarrow> obj \<Rightarrow> nat \<Rightarrow> json list \<Rightarrow> obj \<times> obj list" where
  "alloc_json h JNull = (Null, h)"
| "alloc_json h (JBool b) = (Bool b, h)"
| "alloc_json h (JNum r) = (Num (Fin r), h)"
| "alloc_json h (JStr t) = (Str t, h)"
| "alloc_json h (JObj kvs) =
     (case alloc_members h Map.empty kvs of (ob, h') \<Rightarrow> (Ref (length h'), h' @ [ob]))"
| "alloc_json h (JArr xs) =
     (case alloc_items h Map.empty 0 xs of (ob, h') \<Rightarrow> (Ref (length h'), h' @ [ob]))"
| "alloc_members h ob [] = (ob, h)"
| "alloc_members h ob ((k, j) # kvs) =
     (case alloc_json h j of (v, h') \<Rightarrow> alloc_members h' (ob(k \<mapsto> v)) kvs)"
| "alloc_items h ob i [] = (ob(''length'' \<mapsto> Num (Fin (of_nat i))), h)"
| "alloc_items h ob i (j # js) =
     (case alloc_json h j of (v, h') \<Rightarrow> alloc_items h' (ob(index_key i \<mapsto> v)) (Suc i) js)"

text \<open>
  One run of \<open>pollState\<close>, given how the request ended: \<open>Failed\<close> is a rejected
  \<open>fetch\<close>, a response that is not ok, or a body that does not parse. A body that
  parses to \<open>null\<close> throws at \<open>state.coords\<close> inside the \<open>try\<close>, which the \<open>catch\<close>
  turns into \<open>handleConnectionError\<close>.
\<close>

datatype poll = Failed | Ok json

definition pollState :: "(nat \<Rightarrow> 'a listener) \<Rightarrow> poll \<Rightarrow> 'a store_scheme \<Rightarrow> 'a store_scheme" where
  "pollState B outcome s =
     (case outcome of
        Failed \<Rightarrow> handleConnectionError B s
      | Ok body \<Rightarrow>
          (case alloc_json (heap s) body of (sv, h1) \<Rightarrow>
             if sv = Null then handleConnectionError B s
             else
               let currentState = getState s;
                   parameters = [''length_rod_1'' \<mapsto> get_prop h1 sv ''length_rod_1'',
                                 ''length_rod_2'' \<mapsto> get_prop h1 sv ''length_rod_2'',
                                 ''mass_bob_1'' \<mapsto> get_prop h1 sv ''mass_bob_1'',
                                 ''mass_bob_2'' \<mapsto> get_prop h1 sv ''mass_bob_2'',
                                 ''g'' \<mapsto> get_prop h1 sv ''g''];
                   conditions = [''theta_1'' \<mapsto> get_prop h1 sv ''theta_1'',
                                 ''theta_2'' \<mapsto> get_prop h1 sv ''theta_2'',
                                 ''omega_1'' \<mapsto> get_prop h1 sv ''omega_1'',
                                 ''omega_2'' \<mapsto> get_prop h1 sv ''omega_2''];
                   s = setState B
                         [''latestCoords'' \<mapsto> get_prop h1 sv ''coords'',
                          ''latestEnergy'' \<mapsto> get_prop h1 sv ''energy'',
                          ''simulationState'' \<mapsto> sv,
                          ''parameters'' \<mapsto> Ref (length h1),
                          ''conditions'' \<mapsto> Ref (Suc (length h1))]
                         ''server_update''
                         (s\<lparr>heap := h1 @ [parameters, conditions]\<rparr>)
               in if \<not> truthy (getp currentState ''isConnected'')
                  then setState B [''isConnected'' \<mapsto> Bool True,
                                   ''connectionRetries'' \<mapsto> Num (Fin 0)]
                         ''connection_recovered'' s
                  else s))"

fun polls :: "(nat \<Rightarrow> 'a listener) \<Rightarrow> poll list \<Rightarrow> 'a store_scheme \<Rightarrow> 'a store_scheme" where
  "polls B [] s = s"
| "polls B (x # xs) s = polls B xs (pollState B x s)"

section \<open>Command Dispatcher\<close>

text \<open>
  \<open>parseFloat\<close>: leading white space, an optional sign, then \<open>Infinity\<close> or a decimal
  literal with an optional fraction and exponent; whatever follows is ignored, and NaN
  when no literal starts the string. The result is the exact value of the literal.
\<close>

definition digit_val :: "char \<Rightarrow> nat option" where
  "digit_val c = (if c \<in> set ''0123456789'' then Some (of_char c - 48) else None)"

fun read_digits :: "nat \<Rightarrow> nat \<Rightarrow> string \<Rightarrow> nat \<times> nat \<times> string" where
  "read_digits acc n [] = (acc, n, [])"
| "read_digits acc n (c # cs) =
     (case digit_val c of
        None \<Rightarrow> (acc, n, c # cs)
      | Some d \<Rightarrow> read_digits (10 * acc + d) (Suc n) cs)"

definition read_sign :: "string \<Rightarrow> bool \<times> string" where
  "read_sign cs =
     (case cs of
        [] \<Rightarrow> (False, [])
      | c # r \<Rightarrow> if c = CHR ''-'' then (True, r) else if c = CHR ''+'' then (False, r) else (False, cs))"

definition read_exponent :: "string \<Rightarrow> int" where
  "read_exponent cs =
     (case cs of
        [] \<Rightarrow> 0
      | c # r \<Rightarrow>
          if c = CHR ''e'' \<or> c = CHR ''E'' then
            (case read_sign r of (neg, r') \<Rightarrow>
               (case read_digits 0 0 r' of (e, n, _) \<Rightarrow>
                  if n = 0 then 0 else if neg then - int e else int e))
          else 0)"

definition pow10 :: "int \<Rightarrow> rat" where
  "pow10 e = (if 0 \<le> e then 10 ^ nat e else 1 / 10 ^ nat (- e))"

definition parseFloat :: "string \<Rightarrow> num" where
  "parseFloat v =
     (case read_sign (dropWhile (\<lambda>c. c \<in> set [CHR '' '', CHR 0x09, CHR 0x0A, CHR 0x0B, CHR 0x0C, CHR 0x0D]) v) of
        (neg, r) \<Rightarrow>
          if take 8 r = ''Infinity'' then (if neg then NInf else PInf)
          else
            (case read_digits 0 0 r of (ip, ni, r1) \<Rightarrow>
               (case (if r1 \<noteq> [] \<and> hd r1 = CHR ''.'' then read_digits 0 0 (tl r1) else (0, 0, r1)) of
                  (fp, nf, r2) \<Rightarrow>
                    if ni = 0 \<and> nf = 0 then NaN
                    else
                      let m = (of_nat ip + of_nat fp / 10 ^ nf) * pow10 (read_exponent r2)
                      in Fin (if neg then - m else m))))"

text \<open>\<open>param.replace("_", "-")\<close>: only the first occurrence is replaced.\<close>

fun replace_first :: "char \<Rightarrow> char \<Rightarrow> string \<Rightarrow> string" where
  "replace_first a b [] = []"
| "replace_first a b (c # cs) = (if c = a then b # cs else c # replace_first a b cs)"

text \<open>\<open>if (el && Number(el.value) !== v) el.value = v\<close>\<close>

definition set_input :: "string \<Rightarrow> val \<Rightarrow> app \<Rightarrow> app" where
  "set_input ident v s =
     (case document s ident of
        None \<Rightarrow> s
      | Some el \<Rightarrow> s\<lparr>document := (document s)(ident \<mapsto> el\<lparr>inputValue := v\<rparr>)\<rparr>)"

text \<open>
  \<open>setTimeout\<close> returns a new positive handle and queues the callback; \<open>clearTimeout\<close>
  removes the timer with that handle if it is still pending, and does nothing otherwise.
\<close>

definition setTimeout :: "callback \<Rightarrow> nat \<Rightarrow> app \<Rightarrow> val \<times> app" where
  "setTimeout f delay s =
     (Num (Fin (of_nat (next_timer s))),
      s\<lparr>timers := timers s @ [\<lparr>tid = next_timer s, due = clock s + delay, cb = f\<rparr>],
        next_timer := Suc (next_timer s)\<rparr>)"

definition clearTimeout :: "val \<Rightarrow> app \<Rightarrow> app" where
  "clearTimeout handle s =
     s\<lparr>timers := filter (\<lambda>t. Num (Fin (of_nat (tid t))) \<noteq> handle) (timers s)\<rparr>"

text \<open>
  \<open>timeouts[k] = v\<close> outside a class body (sloppy mode): ignored on a primitive.
\<close>

fun set_prop_sloppy :: "obj list \<Rightarrow> val \<Rightarrow> string \<Rightarrow> val \<Rightarrow> obj list" where
  "set_prop_sloppy h (Ref a) k v = h[a := (deref h a)(k \<mapsto> v)]"
| "set_prop_sloppy h _ k v = h"

text \<open>
  The debounce of both dispatchers: \<open>timeouts\<close> is the object the snapshot read on entry
  refers to; the handle found under the field is cleared, and a new timer is stored there.
\<close>

definition debounce :: "val \<Rightarrow> string \<Rightarrow> callback \<Rightarrow> app \<Rightarrow> app \<times> exn option" where
  "debounce timeouts field f s =
     try_val (read_prop (heap s) timeouts field) s (\<lambda>pending.
       let s = (if truthy pending then clearTimeout pending s else s) in
       case setTimeout f 100 s of
         (handle, s) \<Rightarrow> (s\<lparr>heap := set_prop_sloppy (heap s) timeouts field handle\<rparr>, None))"

definition updateParameter :: "(nat \<Rightarrow> app_listener) \<Rightarrow> string \<Rightarrow> string \<Rightarrow> app \<Rightarrow> app \<times> exn option" where
  "updateParameter B param v s =
     (let st = getState s;
          numericValue = parseFloat v;
          displayId = replace_first CHR ''_'' CHR ''-'' param;
          s = set_text displayId (Fixed (if param = ''g'' then 1 else 0) numericValue) s;
          s = set_input (displayId @ ''-input'') (Num numericValue) s;
          timeouts = getp st ''updateTimeouts''
      in then_do (updateState B (''parameters.'' @ param) (Num numericValue) s)
           (debounce timeouts param (ParamCb param numericValue timeouts)))"

definition updateInitialCondition :: "(nat \<Rightarrow> app_listener) \<Rightarrow> string \<Rightarrow> string \<Rightarrow> app \<Rightarrow> app \<times> exn option" where
  "updateInitialCondition B condition v s =
     (let st = getState s;
          numericValue = parseFloat v;
          s = set_text (condition @ ''-display'') (Fixed 1 numericValue) s;
          s = set_text condition (Fixed 2 numericValue) s;
          s = set_input (condition @ ''-input'') (Num numericValue) s;
          timeouts = getp st ''updateTimeouts''
      in then_do (updateState B (''conditions.'' @ condition) (Num numericValue) s)
           (debounce timeouts condition (CondCb condition numericValue timeouts)))"

text \<open>\<open>{ ...timeouts, [field]: null }\<close>: the own properties of an object; none of a primitive.\<close>

fun spread :: "obj list \<Rightarrow> val \<Rightarrow> obj" where
  "spread h (Ref a) = deref h a"
| "spread h _ = Map.empty"

text \<open>
  A debounce timer firing: the request goes out (\<open>requests\<close> lists endpoint, field and
  value of every \<open>fetch\<close> of an update), and a copy of the \<open>timeouts\<close> object the callback
  closed over, with the field set to \<open>null\<close>, becomes the store's \<open>updateTimeouts\<close>.
  What the promise callbacks print when the response arrives is not part of the model.
\<close>

definition timeout_cleanup :: "(nat \<Rightarrow> app_listener) \<Rightarrow> val \<Rightarrow> string \<Rightarrow> app \<Rightarrow> app" where
  "timeout_cleanup B timeouts field s =
     (let n = length (heap s);
          s = s\<lparr>heap := heap s @ [(spread (heap s) timeouts)(field \<mapsto> Null)]\<rparr>
      in setState B [''updateTimeouts'' \<mapsto> Ref n] ''timeout_cleanup'' s)"

fun run_callback :: "(nat \<Rightarrow> app_listener) \<Rightarrow> callback \<Rightarrow> app \<Rightarrow> app" where
  "run_callback B (ParamCb param numericValue timeouts) s =
     timeout_cleanup B timeouts param
       (s\<lparr>requests := requests s @ [(''/update_parameter'', param, numericValue)]\<rparr>)"
| "run_callback B (CondCb condition numericValue timeouts) s =
     timeout_cleanup B timeouts condition
       (s\<lparr>requests := requests s @ [(''/update_initial_condition'', condition, numericValue)]\<rparr>)"

definition fire :: "(nat \<Rightarrow> app_listener) \<Rightarrow> timer \<Rightarrow> app \<Rightarrow> app" where
  "fire B t s =
     (if tid t \<in> tid ` set (timers s)
      then run_callback B (cb t) (s\<lparr>timers := filter (\<lambda>u. tid u \<noteq> tid t) (timers s)\<rparr>)
      else s)"

text \<open>
  Time passing: the clock advances and the pending timers that are due fire, oldest
  first (every delay is 100 ms, so the order of the queue is the order of the due times).
\<close>

definition tick :: "(nat \<Rightarrow> app_listener) \<Rightarrow> nat \<Rightarrow> app \<Rightarrow> app" where
  "tick B dt s =
     (let s = s\<lparr>clock := clock s + dt\<rparr>
      in foldl (\<lambda>s t. fire B t s) s (filter (\<lambda>t. due t \<le> clock s) (timers s)))"

datatype event = EditParameter string string | EditCondition string string | Tick nat

fun step :: "(nat \<Rightarrow> app_listener) \<Rightarrow> event \<Rightarrow> app \<Rightarrow> app" where
  "step B (EditParameter param v) s = fst (updateParameter B param v s)"
| "step B (EditCondition condition v) s = fst (updateInitialCondition B condition v s)"
| "step B (Tick dt) s = tick B dt s"

fun run :: "(nat \<Rightarrow> app_listener) \<Rightarrow> event list \<Rightarrow> app \<Rightarrow> app" where
  "run B [] s = s"
| "run B (e # es) s = run B es (step B e s)"

fun cb_field :: "callback \<Rightarrow> string" where
  "cb_field (ParamCb param numericValue timeouts) = param"
| "cb_field (CondCb condition numericValue timeouts) = condition"

definition live_timers :: "string \<Rightarrow> app \<Rightarrow> timer list" where
  "live_timers field s = filter (\<lambda>t. cb_field (cb t) = field) (timers s)"

section \<open>Trail Buffer and animation loop\<close>

definition MAX_TRAIL :: nat where
  "MAX_TRAIL = 300"

text \<open>\<open>trail.push(p); ... if (trail.length > MAX_TRAIL) trail.shift()\<close>\<close>

definition push :: "'a \<Rightarrow> 'a list \<Rightarrow> 'a list" where
  "push p trail = trail @ [p]"

definition shift_over :: "'a list \<Rightarrow> 'a list" where
  "shift_over trail = (if length trail > MAX_TRAIL then tl trail else trail)"

text \<open>\<open>{ x: coords[i].x, y: coords[i].y }\<close>, which throws when \<open>coords[i]\<close> is missing.\<close>

definition point_of :: "obj list \<Rightarrow> val \<Rightarrow> string \<Rightarrow> exn + val \<times> val" where
  "point_of h coords i =
     (case read_prop h (get_prop h coords i) ''x'' of
        Inl e \<Rightarrow> Inl e
      | Inr x \<Rightarrow> Inr (x, get_prop h (get_prop h coords i) ''y''))"

text \<open>
  The canvas is not modelled. Of \<open>drawPendulum\<close> only whether it throws is kept: its
  loop reads \<open>coords[i].x\<close> for every index below \<open>coords.length\<close>.
\<close>

definition drawPendulum :: "obj list \<Rightarrow> val \<Rightarrow> exn option" where
  "drawPendulum h coords =
     (case to_num (get_prop h coords ''length'') of
        Fin r \<Rightarrow>
          if list_ex (\<lambda>i. get_prop h coords (index_key i) \<in> {Undefined, Null}) [0..<nat \<lceil>r\<rceil>]
          then Some TypeError else None
      | PInf \<Rightarrow> Some TypeError
      | _ \<Rightarrow> None)"

text \<open>
  One call of \<open>animate\<close> at time \<open>now\<close> (\<open>performance.now()\<close>). An exception leaves the
  function before \<open>requestAnimationFrame(animate)\<close>: no further frame follows it.
\<close>

definition animate :: "(nat \<Rightarrow> app_listener) \<Rightarrow> rat \<Rightarrow> app \<Rightarrow> app \<times> exn option" where
  "animate B now s =
     (let st = getState s;
          newFrameCount = plus_one (getp st ''frameCount'');
          lastFpsUpdate = (if truthy (getp st ''lastFpsUpdate'') then getp st ''lastFpsUpdate''
                           else Num (Fin 0));
          s = (if num_ge (num_sub (Fin now) (to_num lastFpsUpdate)) (Fin 1000)
               then set_text ''fps'' (OfVal newFrameCount)
                      (setState B [''fps'' \<mapsto> newFrameCount,
                                   ''frameCount'' \<mapsto> Num (Fin 0),
                                   ''lastFpsUpdate'' \<mapsto> Num (Fin now)] ''fps_update'' s)
               else setState B [''frameCount'' \<mapsto> newFrameCount] ''frame_count'' s);
          coords = getp st ''latestCoords''
      in if truthy coords \<and> \<not> truthy (getp st ''isPaused'') then
           try_val (point_of (heap s) coords ''0'') s (\<lambda>p1.
             let s = s\<lparr>trail1 := push p1 (trail1 s)\<rparr> in
             try_val (point_of (heap s) coords ''1'') s (\<lambda>p2.
               let s = s\<lparr>trail2 := push p2 (trail2 s)\<rparr>;
                   s = s\<lparr>trail1 := shift_over (trail1 s)\<rparr>;
                   s = s\<lparr>trail2 := shift_over (trail2 s)\<rparr>
               in case drawPendulum (heap s) coords of
                    Some e \<Rightarrow> (s, Some e)
                  | None \<Rightarrow>
                      (set_text ''trail-length''
                         (OfVal (Num (Fin (of_nat (max (length (trail1 s)) (length (trail2 s)))))))
                         s, None)))
         else (s, None))"

text \<open>
  The animation loop: one call per frame time, until a call throws.
\<close>

fun frames :: "(nat \<Rightarrow> app_listener) \<Rightarrow> rat list \<Rightarrow> app \<Rightarrow> app" where
  "frames B [] s = s"
| "frames B (now # ts) s =
     (case animate B now s of
        (s', None) \<Rightarrow> frames B ts s'
      | (s', Some e) \<Rightarrow> s')"

section \<open>Reset\<close>

definition resetPendulum :: "app \<Rightarrow> app" where
  "resetPendulum s =
     (let s = s\<lparr>trail1 := [], trail2 := []\<rparr>;
          s = set_text ''kinetic-energy'' (Lit ''0.00'') s;
          s = set_text ''potential-energy'' (Lit ''0.00'') s;
          s = set_text ''total-energy'' (Lit ''0.00'') s
      in case document s ''energy-error'' of
           None \<Rightarrow> s
         | Some el \<Rightarrow> s\<lparr>document := (document s)(''energy-error'' \<mapsto>
               el\<lparr>textContent := Lit ''0.00%'', color := ''#6c757d''\<rparr>)\<rparr>)"

section \<open>The state at load time\<close>

text \<open>
  The object literal given to \<open>new StateManager\<close> allocates \<open>updateTimeouts\<close>,
  \<open>parameters\<close> and \<open>conditions\<close>, in this order. The listener subscribed at load time is
  listener 0. The elements of the page are not part of the script: \<open>page\<close> is the document.
\<close>

definition initialState :: obj where
  "initialState =
     [''isPaused'' \<mapsto> Bool False,
      ''showTrails'' \<mapsto> Bool True,
      ''initialEnergy'' \<mapsto> Null,
      ''fps'' \<mapsto> Num (Fin 0),
      ''frameCount'' \<mapsto> Num (Fin 0),
      ''isConnected'' \<mapsto> Bool False,
      ''connectionRetries'' \<mapsto> Num (Fin 0),
      ''updateTimeouts'' \<mapsto> Ref 0,
      ''latestCoords'' \<mapsto> Null,
      ''latestEnergy'' \<mapsto> Null,
      ''simulationState'' \<mapsto> Null,
      ''parameters'' \<mapsto> Ref 1,
      ''conditions'' \<mapsto> Ref 2]"

definition initialHeap :: "obj list" where
  "initialHeap =
     [Map.empty,
      [''length_rod_1'' \<mapsto> Num (Fin 120), ''length_rod_2'' \<mapsto> Num (Fin 120),
       ''mass_bob_1'' \<mapsto> Num (Fin 10), ''mass_bob_2'' \<mapsto> Num (Fin 10),
       ''g'' \<mapsto> Num (Fin (981 / 100))],
      [''theta_1'' \<mapsto> Num (Fin (157 / 100)), ''theta_2'' \<mapsto> Num (Fin (157 / 100)),
       ''omega_1'' \<mapsto> Num (Fin 0), ''omega_2'' \<mapsto> Num (Fin 0)]]"

definition stateManager :: "(string \<rightharpoonup> elem) \<Rightarrow> app" where
  "stateManager page =
     subscribe 0
       \<lparr>state = initialState, heap = initialHeap, listeners = [], console = [], calls = [],
        document = page, timers = [], next_timer = 1, clock = 0, requests = [],
        trail1 = [], trail2 = []\<rparr>"

section \<open>Sequences of store operations, and what listeners may do\<close>




















text \<open>
  What the listener subscribed at load time leaves alone: everything but the document,
  the record of calls, the console and the field \<open>initialEnergy\<close> of the snapshot.
\<close>

definition same_rest :: "app \<Rightarrow> app \<Rightarrow> bool" where
  "same_rest s s' \<longleftrightarrow>
     heap s' = heap s \<and> listeners s' = listeners s \<and> timers s' = timers s \<and>
     next_timer s' = next_timer s \<and> clock s' = clock s \<and> requests s' = requests s \<and>
     trail1 s' = trail1 s \<and> trail2 s' = trail2 s \<and>
     (\<forall>k. k \<noteq> ''initialEnergy'' \<longrightarrow> state s' k = state s k)"

definition steady :: "(nat \<Rightarrow> app_listener) \<Rightarrow> bool" where
  "steady B \<longleftrightarrow> (\<forall>l p n src s. same_rest s (fst (B l p n src s)))"



section \<open>The connection fields across polls\<close>

text \<open>
  \<open>conn_is s b c\<close>: the snapshot holds \<open>isConnected = b\<close> and \<open>connectionRetries = c\<close>.
  A poll counts as failed when \<open>pollState\<close> ends in \<open>handleConnectionError\<close>.
  \<open>page_listener d\<close> is the table of listeners of the page: the listener subscribed at
  load time, with \<open>d\<close> the depth of calls the stack allows.
\<close>

definition conn_is :: "'a store_scheme \<Rightarrow> bool \<Rightarrow> rat \<Rightarrow> bool" where
  "conn_is s b c \<longleftrightarrow>
     state s ''isConnected'' = Some (Bool b) \<and> state s ''connectionRetries'' = Some (Num (Fin c))"

fun failed :: "poll \<Rightarrow> bool" where
  "failed Failed = True"
| "failed (Ok body) = (body = JNull)"

definition failures :: "poll list \<Rightarrow> nat" where
  "failures xs = length (filter failed xs)"

definition page_listener :: "nat \<Rightarrow> nat \<Rightarrow> app_listener" where
  "page_listener d l = display_listener d"

text \<open>
  What one poll does to the two fields (lemma \<open>polls_monitor\<close> shows that this is what
  \<open>pollState\<close> does).
\<close>

fun monitor :: "bool \<times> rat \<Rightarrow> poll \<Rightarrow> bool \<times> rat" where
  "monitor (b, c) x =
     (if failed x then (b \<and> c + 1 < 5, c + 1) else (True, if b then c else 0))"

text \<open>The page (here without elements) after its first successful poll.\<close>

definition connected_page :: app where
  "connected_page = pollState (page_listener 2) (Ok (JObj [])) (stateManager Map.empty)"

section \<open>Example pages\<close>

text \<open>
  A document with the elements \<open>energy-error\<close> and \<open>gravity\<close>; and a page that is connected
  and holds an energy reading with total \<open>t\<close>, as after a successful poll, with a given
  \<open>initialEnergy\<close>.
\<close>

definition blank :: elem where
  "blank = \<lparr>textContent = Lit [], inputValue = Undefined, color = [], className = []\<rparr>"

definition example_page :: "string \<rightharpoonup> elem" where
  "example_page = [''energy-error'' \<mapsto> blank, ''gravity'' \<mapsto> blank]"

definition energy_page :: "val \<Rightarrow> rat \<Rightarrow> app" where
  "energy_page baseline t =
     \<lparr>state = initialState(''isConnected'' \<mapsto> Bool True, ''latestEnergy'' \<mapsto> Ref 3,
                            ''initialEnergy'' \<mapsto> baseline),
      heap = initialHeap @ [[''kinetic'' \<mapsto> Num (Fin 0), ''potential'' \<mapsto> Num (Fin t),
                             ''total'' \<mapsto> Num (Fin t)]],
      listeners = [0], console = [], calls = [],
      document = example_page, timers = [], next_timer = 1, clock = 0, requests = [],
      trail1 = [], trail2 = []\<rparr>"

text \<open>The source handed to the listener called last.\<close>

definition last_source :: "'a store_scheme \<Rightarrow> string" where
  "last_source s = snd (snd (snd (last (calls s))))"

section \<open>Frames that record\<close>

text \<open>
  A frame records when coordinates are present and the simulation is not paused;
  \<open>both_points\<close>: the two entries of \<open>latestCoords\<close> can be read (the snapshot of the
  simulator has one position per body). \<open>evict_push\<close> is a first-in first-out buffer of
  capacity \<open>MAX_TRAIL\<close>: the new point goes to the end, and the oldest leaves when the
  buffer is full. \<open>fps_step\<close> is the part of \<open>animate\<close> that counts frames.
\<close>

definition recording :: "app \<Rightarrow> bool" where
  "recording s \<longleftrightarrow>
     truthy (getp (state s) ''latestCoords'') \<and> \<not> truthy (getp (state s) ''isPaused'')"

definition both_points :: "app \<Rightarrow> val \<times> val \<Rightarrow> val \<times> val \<Rightarrow> bool" where
  "both_points s p1 p2 \<longleftrightarrow>
     point_of (heap s) (getp (state s) ''latestCoords'') ''0'' = Inr p1 \<and>
     point_of (heap s) (getp (state s) ''latestCoords'') ''1'' = Inr p2"

definition trails_bounded :: "app \<Rightarrow> bool" where
  "trails_bounded s \<longleftrightarrow> length (trail1 s) \<le> MAX_TRAIL \<and> length (trail2 s) \<le> MAX_TRAIL"

definition evict_push :: "'a \<Rightarrow> 'a list \<Rightarrow> 'a list" where
  "evict_push p trail = (if length trail < MAX_TRAIL then trail @ [p] else tl trail @ [p])"

definition fps_step :: "(nat \<Rightarrow> app_listener) \<Rightarrow> rat \<Rightarrow> app \<Rightarrow> app" where
  "fps_step B now s =
     (let st = getState s;
          newFrameCount = plus_one (getp st ''frameCount'');
          lastFpsUpdate = (if truthy (getp st ''lastFpsUpdate'') then getp st ''lastFpsUpdate''
                           else Num (Fin 0))
      in (if num_ge (num_sub (Fin now) (to_num lastFpsUpdate)) (Fin 1000)
               then set_text ''fps'' (OfVal newFrameCount)
                      (setState B [''fps'' \<mapsto> newFrameCount,
                                   ''frameCount'' \<mapsto> Num (Fin 0),
                                   ''lastFpsUpdate'' \<mapsto> Num (Fin now)] ''fps_update'' s)
               else setState B [''frameCount'' \<mapsto> newFrameCount] ''frame_count'' s))"

text \<open>A connected page with coordinates \<open>(1, 2)\<close> and \<open>(3, 4)\<close> and given trails.\<close>

definition coords_page :: "(val \<times> val) list \<Rightarrow> app" where
  "coords_page trail =
     \<lparr>state = initialState(''isConnected'' \<mapsto> Bool True, ''latestCoords'' \<mapsto> Ref 3),
      heap = initialHeap @
        [[''0'' \<mapsto> Ref 4, ''1'' \<mapsto> Ref 5, ''length'' \<mapsto> Num (Fin 2)],
         [''x'' \<mapsto> Num (Fin 1), ''y'' \<mapsto> Num (Fin 2)],
         [''x'' \<mapsto> Num (Fin 3), ''y'' \<mapsto> Num (Fin 4)]],
      listeners = [0], console = [], calls = [],
      document = example_page, timers = [], next_timer = 1, clock = 0, requests = [],
      trail1 = trail, trail2 = trail\<rparr>"

section \<open>Debounce scenarios\<close>

text \<open>
  Two pages agree when they have the same heap, timers, clock and requests and the same
  snapshot but for \<open>initialEnergy\<close>: what the dispatcher and the timers read and write.
\<close>

definition agree :: "app \<Rightarrow> app \<Rightarrow> bool" where
  "agree s t \<longleftrightarrow>
     heap t = heap s \<and> timers t = timers s \<and> next_timer t = next_timer s \<and>
     clock t = clock s \<and> requests t = requests s \<and>
     (\<forall>k. k \<noteq> ''initialEnergy'' \<longrightarrow> state t k = state s k)"

text \<open>
  Edits of two fields whose timers interleave. At 0 ms \<open>g\<close> is edited, at 50 ms
  \<open>mass_bob_1\<close>; the timer of \<open>g\<close> fires at 100 ms; \<open>g\<close> is edited again at 120 ms; the
  timer of \<open>mass_bob_1\<close> fires at 150 ms; \<open>g\<close> is edited once more at 160 ms, 40 ms after
  its previous edit. \<open>bare_page\<close> is the page at load time without listener and elements.
\<close>

definition two_field_edits :: "event list" where
  "two_field_edits =
     [EditParameter ''g'' ''1'', Tick 50, EditParameter ''mass_bob_1'' ''5'', Tick 50, Tick 20,
      EditParameter ''g'' ''2'', Tick 30, Tick 10, EditParameter ''g'' ''3'']"

definition bare_page :: app where
  "bare_page =
     \<lparr>state = initialState, heap = initialHeap, listeners = [], console = [], calls = [],
      document = Map.empty, timers = [], next_timer = 1, clock = 0, requests = [],
      trail1 = [], trail2 = []\<rparr>"

text \<open>
  A burst of edits of one parameter: a first value, then pairs of a pause and a next
  value. \<open>wired\<close>: a page without listeners whose snapshot refers to the \<open>timeouts\<close>
  object at \<open>a\<close> and the \<open>parameters\<close> object at \<open>p\<close>. \<open>armed\<close>: the one pending timer is the
  one just started for the field, and the field of the \<open>timeouts\<close> object holds its handle.
\<close>

fun burst :: "string \<Rightarrow> string \<Rightarrow> (nat \<times> string) list \<Rightarrow> event list" where
  "burst f v [] = [EditParameter f v]"
| "burst f v ((d, v') # rest) = EditParameter f v # Tick d # burst f v' rest"

fun last_value :: "string \<Rightarrow> (nat \<times> string) list \<Rightarrow> string" where
  "last_value v [] = v"
| "last_value v ((d, v') # rest) = last_value v' rest"

definition wired :: "addr \<Rightarrow> addr \<Rightarrow> app \<Rightarrow> bool" where
  "wired a p t \<longleftrightarrow>
     listeners t = [] \<and> state t ''updateTimeouts'' = Some (Ref a) \<and>
     state t ''parameters'' = Some (Ref p) \<and> a < length (heap t) \<and> p < length (heap t) \<and>
     a \<noteq> p \<and> 0 < next_timer t"

definition armed :: "addr \<Rightarrow> string \<Rightarrow> string \<Rightarrow> app \<Rightarrow> bool" where
  "armed a f v t \<longleftrightarrow>
     (\<exists>x. timers t = [x] \<and> cb x = ParamCb f (parseFloat v) (Ref a) \<and> due x = clock t + 100 \<and>
          0 < tid x \<and> getp (heap t ! a) f = Num (Fin (of_nat (tid x))))"

text \<open>Edits of two fields within one window, the first field edited twice.\<close>

definition two_fields_one_window :: "event list" where
  "two_fields_one_window =
     [EditParameter ''g'' ''3.71'', Tick 10, EditCondition ''theta_1'' ''0.5'', Tick 20,
      EditParameter ''g'' ''3.72'', Tick 100]"

text \<open>A connected page whose coordinates hold one position only.\<close>

definition one_position_page :: "(val \<times> val) list \<Rightarrow> app" where
  "one_position_page trail =
     \<lparr>state = initialState(''isConnected'' \<mapsto> Bool True, ''latestCoords'' \<mapsto> Ref 3),
      heap = initialHeap @
        [[''0'' \<mapsto> Ref 4, ''length'' \<mapsto> Num (Fin 1)],
         [''x'' \<mapsto> Num (Fin 1), ''y'' \<mapsto> Num (Fin 2)]],
      listeners = [0], console = [], calls = [],
      document = example_page, timers = [], next_timer = 1, clock = 0, requests = [],
      trail1 = trail, trail2 = trail\<rparr>"

section \<open>Lemmas: the store\<close>




























section \<open>Lemmas: the listener of the page\<close>

lemma same_rest_refl [simp]: "same_rest s s"
  by (simp add: same_rest_def)

lemma same_rest_trans: "same_rest s s' \<Longrightarrow> same_rest s' s'' \<Longrightarrow> same_rest s s''"
  by (simp add: same_rest_def)

lemma same_rest_document [simp]: "same_rest s (s'\<lparr>document := d\<rparr>) = same_rest s s'"
  by (simp add: same_rest_def)

lemma same_rest_calls [simp]: "same_rest s (s'\<lparr>calls := c\<rparr>) = same_rest s s'"
  by (simp add: same_rest_def)

lemma same_rest_console [simp]: "same_rest s (s'\<lparr>console := c\<rparr>) = same_rest s s'"
  by (simp add: same_rest_def)

lemma then_do_same_rest:
  assumes "same_rest s (fst r)" "\<And>s'. same_rest s' (fst (f s'))"
  shows "same_rest s (fst (then_do r f))"
proof (cases r)
  case (Pair s1 e)
  show ?thesis
  proof (cases e)
    case None
    with Pair assms(1) assms(2)[of s1] show ?thesis
      by (auto simp: then_do_def intro: same_rest_trans)
  next
    case (Some x)
    with Pair assms(1) show ?thesis by (simp add: then_do_def)
  qed
qed

lemma try_val_same_rest:
  assumes "\<And>v. same_rest s (fst (f v))"
  shows "same_rest s (fst (try_val r s f))"
  using assms by (cases r) (simp_all add: try_val_def)

lemma put_fixed_same_rest [simp]: "same_rest s (fst (put_fixed i c k d s))"
  by (simp add: put_fixed_def split: option.splits sum.splits)

lemma put_or0_same_rest [simp]: "same_rest s (fst (put_or0 i v d s))"
  by (simp add: put_or0_def split: option.splits sum.splits)

lemma sync_input_same_rest [simp]: "same_rest s (fst (sync_input i c k s))"
  by (simp add: sync_input_def split: option.splits sum.splits)

lemma set_text_same_rest [simp]: "same_rest s (set_text i t s)"
  by (simp add: set_text_def split: option.splits)

lemma set_input_same_rest [simp]: "same_rest s (set_input i t s)"
  by (simp add: set_input_def split: option.splits)

lemma updateConnectionStatus_same_rest [simp]: "same_rest s (updateConnectionStatus c s)"
  by (auto simp: updateConnectionStatus_def Let_def split: option.splits intro: same_rest_trans[OF _ set_text_same_rest])

lemma updateAngularDisplay_same_rest [simp]: "same_rest s (fst (updateAngularDisplay sim s))"
  unfolding updateAngularDisplay_def Let_def
  by (intro try_val_same_rest then_do_same_rest put_or0_same_rest)

lemma updateParameterDisplays_same_rest [simp]: "same_rest s (fst (updateParameterDisplays s))"
  unfolding updateParameterDisplays_def Let_def
  by (intro then_do_same_rest put_fixed_same_rest)

lemma updateSliderInputs_same_rest [simp]: "same_rest s (fst (updateSliderInputs s))"
  unfolding updateSliderInputs_def Let_def
  by (intro then_do_same_rest sync_input_same_rest)

lemma notify_same_rest:
  "steady B \<Longrightarrow> same_rest s (notifyListeners B ls p n src s)"
proof (induction ls arbitrary: s)
  case Nil
  then show ?case by simp
next
  case (Cons l ls)
  let ?s0 = "s\<lparr>calls := calls s @ [(l, p, n, src)]\<rparr>"
  obtain s' e where r: "B l p n src ?s0 = (s', e)" by (cases "B l p n src ?s0")
  from Cons.prems have "same_rest ?s0 (fst (B l p n src ?s0))" unfolding steady_def by blast
  with r have a: "same_rest s s'" by (simp add: same_rest_def)
  show ?case
  proof (cases e)
    case None
    with r a Cons.IH[OF Cons.prems, of s'] show ?thesis by (auto intro: same_rest_trans)
  next
    case (Some x)
    have "same_rest s (s'\<lparr>console := console s' @ [(''State listener error:'', x)]\<rparr>)"
      using a by simp
    from same_rest_trans[OF this Cons.IH[OF Cons.prems, of "s'\<lparr>console := console s' @ [(''State listener error:'', x)]\<rparr>"]]
    show ?thesis using Some r by simp
  qed
qed

lemma setState_initialEnergy_same_rest:
  "steady B \<Longrightarrow> same_rest s (setState B [''initialEnergy'' \<mapsto> v] src s)"
proof -
  assume st: "steady B"
  have "same_rest s (s\<lparr>state := state s ++ [''initialEnergy'' \<mapsto> v]\<rparr>)"
    by (simp add: same_rest_def)
  from same_rest_trans[OF this notify_same_rest[OF st]]
  show ?thesis by (simp add: setState_def Let_def)
qed

lemma updateEnergyDisplay_same_rest:
  assumes "steady B"
  shows "same_rest s (fst (updateEnergyDisplay B s))"
  unfolding updateEnergyDisplay_def Let_def
  apply (simp only: split: if_split)
  apply (intro conjI impI same_rest_refl then_do_same_rest put_fixed_same_rest)
   apply simp
  apply (auto split: option.splits simp: setState_initialEnergy_same_rest[OF assms])
  done

lemma updateAllDisplays_same_rest:
  assumes "steady B"
  shows "same_rest s (fst (updateAllDisplays B s))"
  unfolding updateAllDisplays_def Let_def
  by (intro then_do_same_rest) (simp_all add: updateEnergyDisplay_same_rest[OF assms])

lemma display_listener_steady: "steady (\<lambda>l. display_listener d)"
proof (induction d)
  case 0
  show ?case by (simp add: steady_def)
next
  case (Suc d)
  then show ?case
    by (simp add: steady_def updateAllDisplays_same_rest)
qed

section \<open>Lemmas: the connection monitor\<close>

lemma setState_steady:
  assumes "steady B" "k \<noteq> ''initialEnergy''"
  shows "state (setState B ns src s) k = (state s ++ ns) k"
proof -
  have "same_rest (s\<lparr>state := state s ++ ns\<rparr>) (setState B ns src s)"
    using notify_same_rest[OF assms(1)] by (simp add: setState_def Let_def)
  with assms(2) show ?thesis by (simp add: same_rest_def)
qed

lemma handleConnectionError_conn:
  assumes "steady B" "conn_is s b c"
  shows "conn_is (handleConnectionError B s) (b \<and> c + 1 < 5) (c + 1)"
  using assms
  by (auto simp: handleConnectionError_def Let_def conn_is_def getState_def getp_def
        setState_steady maxRetries_def num_ge_def map_add_def)

lemma alloc_json_null: "fst (alloc_json h body) = Null \<longleftrightarrow> body = JNull"
  by (cases body) (auto split: prod.splits)

lemma pollState_ok_conn:
  assumes "steady B" "conn_is s b c" "body \<noteq> JNull"
  shows "conn_is (pollState B (Ok body) s) True (if b then c else 0)"
proof -
  obtain sv h1 where a: "alloc_json (heap s) body = (sv, h1)" by (cases "alloc_json (heap s) body")
  with assms(3) alloc_json_null[of "heap s" body] have nn: "sv \<noteq> Null" by auto
  show ?thesis
    using assms(1,2) a nn
    by (auto simp: pollState_def Let_def conn_is_def getState_def getp_def
          setState_steady map_add_def)
qed

lemma pollState_conn:
  assumes "steady B" "conn_is s b c"
  shows "conn_is (pollState B x s)
           (if failed x then b \<and> c + 1 < 5 else True)
           (if failed x then c + 1 else if b then c else 0)"
proof (cases x)
  case Failed
  with handleConnectionError_conn[OF assms] show ?thesis by (simp add: pollState_def)
next
  case (Ok body)
  show ?thesis
  proof (cases "body = JNull")
    case True
    with Ok handleConnectionError_conn[OF assms] show ?thesis by (simp add: pollState_def)
  next
    case False
    with Ok pollState_ok_conn[OF assms False] show ?thesis by simp
  qed
qed

lemma polls_append: "polls B (xs @ ys) s = polls B ys (polls B xs s)"
  by (induction xs arbitrary: s) simp_all

lemma pollState_Failed: "pollState B Failed s = handleConnectionError B s"
  by (simp add: pollState_def)

lemma pollState_failed_conn:
  assumes "steady B" "conn_is s b c" "failed x"
  shows "conn_is (pollState B x s) (b \<and> c + 1 < 5) (c + 1)"
proof -
  from assms(3) have "pollState B x s = handleConnectionError B s"
    by (cases x) (simp_all add: pollState_def)
  with handleConnectionError_conn[OF assms(1,2)] show ?thesis by simp
qed

lemma pollState_success_conn:
  assumes "steady B" "conn_is s True c" "\<not> failed x"
  shows "conn_is (pollState B x s) True c"
proof -
  from assms(3) obtain body where x: "x = Ok body" "body \<noteq> JNull" by (cases x) auto
  with pollState_ok_conn[OF assms(1,2) x(2)] show ?thesis by simp
qed

lemma polls_failures:
  assumes "steady B"
  shows "conn_is s True c \<Longrightarrow> c + of_nat (failures xs) < 5 \<Longrightarrow>
         conn_is (polls B xs s) True (c + of_nat (failures xs))"
proof (induction xs arbitrary: s c)
  case Nil
  then show ?case by (simp add: failures_def)
next
  case (Cons x xs)
  show ?case
  proof (cases "failed x")
    case True
    then have e: "c + of_nat (failures (x # xs)) = (c + 1) + of_nat (failures xs)"
      by (simp add: failures_def)
    with Cons.prems(2) have lt: "c + 1 < 5" "(c + 1) + of_nat (failures xs) < 5" by simp_all
    from pollState_failed_conn[OF assms Cons.prems(1) True] lt(1)
    have "conn_is (pollState B x s) True (c + 1)" by simp
    from Cons.IH[OF this lt(2)] show ?thesis by (simp only: e polls.simps)
  next
    case False
    then have e: "c + of_nat (failures (x # xs)) = c + of_nat (failures xs)"
      by (simp add: failures_def)
    with Cons.prems(2) have lt: "c + of_nat (failures xs) < 5" by simp
    from Cons.IH[OF pollState_success_conn[OF assms Cons.prems(1) False] lt]
    show ?thesis by (simp only: e polls.simps)
  qed
qed

lemma polls_failed_run:
  assumes "steady B"
  shows "conn_is s True 0 \<Longrightarrow> conn_is (polls B (replicate n Failed) s) (n < 5) (of_nat n)"
proof (induction n)
  case 0
  then show ?case by simp
next
  case (Suc n)
  have "replicate (Suc n) Failed = replicate n Failed @ [Failed]"
    by (simp add: replicate_append_same)
  then have p: "polls B (replicate (Suc n) Failed) s = pollState B Failed (polls B (replicate n Failed) s)"
    by (simp only: polls_append polls.simps)
  have e1: "(n < 5 \<and> (of_nat n :: rat) + 1 < 5) = (Suc n < 5)" by auto
  have e2: "(of_nat n :: rat) + 1 = of_nat (Suc n)" by simp
  have "conn_is (pollState B Failed (polls B (replicate n Failed) s))
          (n < 5 \<and> (of_nat n :: rat) + 1 < 5) (of_nat n + 1)"
    by (rule pollState_failed_conn[OF assms Suc.IH[OF Suc.prems]]) simp
  then have "conn_is (pollState B Failed (polls B (replicate n Failed) s))
          (n < 5 \<and> (of_nat (Suc n) :: rat) < 5) (of_nat (Suc n))" by (simp only: e2)
  moreover have "(n < 5 \<and> (of_nat (Suc n) :: rat) < 5) = (Suc n < 5)"
    using e1 by (simp only: e2)
  ultimately show ?case by (simp only: p)
qed

lemma polls_monitor:
  assumes "steady B"
  shows "conn_is s b c \<Longrightarrow>
         conn_is (polls B xs s) (fst (foldl monitor (b, c) xs)) (snd (foldl monitor (b, c) xs))"
proof (induction xs arbitrary: s b c)
  case Nil
  then show ?case by simp
next
  case (Cons x xs)
  from pollState_conn[OF assms Cons.prems, of x]
  have "conn_is (pollState B x s) (fst (monitor (b, c) x)) (snd (monitor (b, c) x))"
    by (cases "failed x") simp_all
  from Cons.IH[OF this] show ?case by simp
qed

lemma page_listener_steady: "steady (page_listener d)"
  using display_listener_steady[of d] by (simp add: steady_def page_listener_def)

lemma stateManager_conn: "conn_is (stateManager page) False 0"
  by (simp add: conn_is_def stateManager_def subscribe_def initialState_def)

lemma connected_page_conn: "conn_is connected_page True 0"
  using pollState_ok_conn[OF page_listener_steady stateManager_conn, of "JObj []" 2 Map.empty]
  by (simp add: connected_page_def)

section \<open>Lemmas: the display\<close>

lemmas eval_defs = stateManager_def subscribe_def initialState_def initialHeap_def
  page_listener_def updateParameter_def updateState_def setState_def Let_def getState_def getp_def
  parseFloat_def read_sign_def read_exponent_def pow10_def digit_val_def
  set_text_def set_input_def then_do_def try_val_def debounce_def setTimeout_def clearTimeout_def
  updateAllDisplays_def updateEnergyDisplay_def updateAngularDisplay_def updateParameterDisplays_def
  updateSliderInputs_def updateConnectionStatus_def put_fixed_def put_or0_def sync_input_def
  sim_or_condition_def deref_def example_page_def blank_def
  conservationError_def error_color_def num_sub_def energy_page_def

lemma put_fixed_ok:
  assumes "put_fixed i c k d s = (s', None)"
  shows "heap s' = heap s \<and> state s' = state s \<and> (\<forall>j. j \<noteq> i \<longrightarrow> document s' j = document s j)"
  using assms by (auto simp: put_fixed_def split: option.splits sum.splits)

lemma display_listener_on_update: "display_listener (Suc d) p n (''update:'' @ path) s = updateAllDisplays (\<lambda>l. display_listener d) s"
  by simp


section \<open>Lemmas: the trail buffer\<close>

lemma setState_same_rest:
  assumes "steady B"
  shows "same_rest (s\<lparr>state := state s ++ ns\<rparr>) (setState B ns src s)"
  using notify_same_rest[OF assms] by (simp add: setState_def Let_def)

lemma shift_over_push: "shift_over (push p trail) = evict_push p trail"
  by (cases trail) (auto simp: shift_over_def push_def evict_push_def MAX_TRAIL_def)

lemma evict_push_length: "length trail \<le> MAX_TRAIL \<Longrightarrow> length (evict_push p trail) \<le> MAX_TRAIL"
  by (auto simp: evict_push_def MAX_TRAIL_def)

lemma fps_step_frame:
  assumes "steady B"
  shows "heap (fps_step B now s) = heap s \<and> trail1 (fps_step B now s) = trail1 s \<and>
         trail2 (fps_step B now s) = trail2 s \<and>
         state (fps_step B now s) ''latestCoords'' = state s ''latestCoords'' \<and>
         state (fps_step B now s) ''isPaused'' = state s ''isPaused''"
proof -
  have a: "\<And>ns src. same_rest (s\<lparr>state := state s ++ ns\<rparr>) (setState B ns src s)"
    by (rule setState_same_rest[OF assms])
  show ?thesis
    unfolding fps_step_def Let_def
    using a[of "[''fps'' \<mapsto> plus_one (getp (getState s) ''frameCount''),
                 ''frameCount'' \<mapsto> Num (Fin 0), ''lastFpsUpdate'' \<mapsto> Num (Fin now)]" "''fps_update''"]
          a[of "[''frameCount'' \<mapsto> plus_one (getp (getState s) ''frameCount'')]" "''frame_count''"]
    by (auto simp: same_rest_def set_text_def map_add_def split: option.splits)
qed

lemma animate_unfold:
  "animate B now s =
     (let st = getState s; s1 = fps_step B now s; coords = getp st ''latestCoords''
      in if truthy coords \<and> \<not> truthy (getp st ''isPaused'') then
           try_val (point_of (heap s1) coords ''0'') s1 (\<lambda>p1.
             let s2 = s1\<lparr>trail1 := push p1 (trail1 s1)\<rparr> in
             try_val (point_of (heap s2) coords ''1'') s2 (\<lambda>p2.
               let s3 = s2\<lparr>trail2 := push p2 (trail2 s2)\<rparr>;
                   s4 = s3\<lparr>trail1 := shift_over (trail1 s3)\<rparr>;
                   s5 = s4\<lparr>trail2 := shift_over (trail2 s4)\<rparr>
               in case drawPendulum (heap s5) coords of
                    Some e \<Rightarrow> (s5, Some e)
                  | None \<Rightarrow>
                      (set_text ''trail-length''
                         (OfVal (Num (Fin (of_nat (max (length (trail1 s5)) (length (trail2 s5)))))))
                         s5, None)))
         else (s1, None))"
  by (simp add: animate_def fps_step_def Let_def)

lemma animate_recording:
  assumes "steady B" "recording s" "both_points s p1 p2"
  shows "trail1 (fst (animate B now s)) = evict_push p1 (trail1 s) \<and>
         trail2 (fst (animate B now s)) = evict_push p2 (trail2 s) \<and>
         heap (fst (animate B now s)) = heap s \<and>
         state (fst (animate B now s)) ''latestCoords'' = state s ''latestCoords'' \<and>
         state (fst (animate B now s)) ''isPaused'' = state s ''isPaused''"
  using assms(2,3) fps_step_frame[OF assms(1), of now s]
  by (auto simp: animate_unfold Let_def recording_def both_points_def getState_def try_val_def
        shift_over_push set_text_def split: option.splits)

lemma animate_idle:
  assumes "steady B" "\<not> recording s"
  shows "trail1 (fst (animate B now s)) = trail1 s \<and>
         trail2 (fst (animate B now s)) = trail2 s \<and>
         heap (fst (animate B now s)) = heap s \<and>
         state (fst (animate B now s)) ''latestCoords'' = state s ''latestCoords'' \<and>
         state (fst (animate B now s)) ''isPaused'' = state s ''isPaused''"
  using assms(2) fps_step_frame[OF assms(1), of now s]
  by (auto simp: animate_unfold Let_def recording_def getState_def)


lemma animate_keeps_points:
  assumes "steady B"
  shows "recording (fst (animate B now s)) = recording s \<and>
         both_points (fst (animate B now s)) p1 p2 = both_points s p1 p2"
proof (cases "recording s")
  case False
  from animate_idle[OF assms False, of now] show ?thesis
    by (simp add: recording_def both_points_def getp_def)
next
  case True
  show ?thesis
  proof (cases "\<exists>q1 q2. both_points s q1 q2")
    case True
    then obtain q1 q2 where "both_points s q1 q2" by blast
    from animate_recording[OF assms \<open>recording s\<close> this, of now] show ?thesis
      by (simp add: recording_def both_points_def getp_def)
  next
    case False
    have h: "heap (fst (animate B now s)) = heap s \<and>
         state (fst (animate B now s)) ''latestCoords'' = state s ''latestCoords'' \<and>
         state (fst (animate B now s)) ''isPaused'' = state s ''isPaused''"
      using \<open>recording s\<close> fps_step_frame[OF assms, of now s]
      by (auto simp: animate_unfold Let_def recording_def getState_def try_val_def set_text_def
            split: option.splits sum.splits)
    then show ?thesis by (simp add: recording_def both_points_def getp_def)
  qed
qed

lemma animate_bounded:
  assumes "steady B" "trails_bounded s" "recording s \<longrightarrow> (\<exists>p1 p2. both_points s p1 p2)"
  shows "trails_bounded (fst (animate B now s))"
proof (cases "recording s")
  case True
  with assms(3) obtain p1 p2 where "both_points s p1 p2" by blast
  from animate_recording[OF assms(1) True this, of now] assms(2) show ?thesis
    by (simp add: trails_bounded_def evict_push_length)
next
  case False
  from animate_idle[OF assms(1) False, of now] assms(2) show ?thesis
    by (simp add: trails_bounded_def)
qed

lemma frames_bounded:
  assumes "steady B"
  shows "trails_bounded s \<Longrightarrow> (recording s \<longrightarrow> (\<exists>p1 p2. both_points s p1 p2)) \<Longrightarrow>
         trails_bounded (frames B ts s)"
proof (induction ts arbitrary: s)
  case Nil
  then show ?case by simp
next
  case (Cons now ts)
  obtain s' e where r: "animate B now s = (s', e)" by (cases "animate B now s")
  from animate_bounded[OF assms Cons.prems, of now] r have b: "trails_bounded s'" by simp
  from animate_keeps_points[OF assms, of now s] r Cons.prems(2)
  have p: "recording s' \<longrightarrow> (\<exists>p1 p2. both_points s' p1 p2)" by simp
  show ?case
  proof (cases e)
    case None
    with r Cons.IH[OF b p] show ?thesis by simp
  next
    case (Some x)
    with r b show ?thesis by simp
  qed
qed

lemma coords_page_trails: "trail1 (coords_page t) = t \<and> trail2 (coords_page t) = t"
  by (simp add: coords_page_def)

lemma evict_full: "evict_push p (replicate 300 q) = replicate 299 q @ [p]"
  by (simp add: evict_push_def MAX_TRAIL_def)

section \<open>Lemmas: the dispatcher on pages that agree\<close>

lemma agree_refl [simp]: "agree s s"
  by (simp add: agree_def)

lemma agree_sym: "agree s t \<Longrightarrow> agree t s"
  by (simp add: agree_def)

lemma agree_trans: "agree s t \<Longrightarrow> agree t u \<Longrightarrow> agree s u"
  by (simp add: agree_def)

lemma same_rest_agree: "same_rest s s' \<Longrightarrow> agree s s'"
  by (simp add: same_rest_def agree_def)

lemma agree_document [simp]:
  "agree (s\<lparr>document := d\<rparr>) t = agree s t" "agree s (t\<lparr>document := d\<rparr>) = agree s t"
  by (simp_all add: agree_def)

lemma agree_set_text [simp]:
  "agree (set_text i x s) t = agree s t" "agree s (set_text i x t) = agree s t"
  by (simp_all add: set_text_def split: option.splits)

lemma agree_set_input [simp]:
  "agree (set_input i x s) t = agree s t" "agree s (set_input i x t) = agree s t"
  by (simp_all add: set_input_def split: option.splits)

lemma setState_agree:
  assumes "steady B" "steady B'" "agree s t" "\<forall>k. k \<noteq> ''initialEnergy'' \<longrightarrow> ns k = ns' k"
  shows "agree (setState B ns src s) (setState B' ns' src' t)"
proof -
  have a: "agree (setState B ns src s) (s\<lparr>state := state s ++ ns\<rparr>)"
    by (rule agree_sym[OF same_rest_agree[OF setState_same_rest[OF assms(1)]]])
  have b: "agree (t\<lparr>state := state t ++ ns'\<rparr>) (setState B' ns' src' t)"
    by (rule same_rest_agree[OF setState_same_rest[OF assms(2)]])
  have c: "agree (s\<lparr>state := state s ++ ns\<rparr>) (t\<lparr>state := state t ++ ns'\<rparr>)"
    using assms(3,4) by (auto simp: agree_def map_add_def split: option.splits)
  from agree_trans[OF a agree_trans[OF c b]] show ?thesis .
qed

lemma split_dot_prefix: "CHR ''.'' \<notin> set a \<Longrightarrow> split_dot (a @ CHR ''.'' # b) = a # split_dot b"
  by (induction a) (auto split: list.splits)

lemma split_parameters: "split_dot (''parameters.'' @ param) = ''parameters'' # split_dot param"
  using split_dot_prefix[of "''parameters''" param] by simp

lemma split_conditions: "split_dot (''conditions.'' @ c) = ''conditions'' # split_dot c"
  using split_dot_prefix[of "''conditions''" c] by simp

lemma updateState_agree:
  assumes "steady B" "steady B'" "agree s t" "hd (split_dot path) \<noteq> ''initialEnergy''"
  shows "agree (fst (updateState B path v s)) (fst (updateState B' path v t)) \<and>
         snd (updateState B path v s) = snd (updateState B' path v t)"
proof -
  let ?k = "hd (split_dot path)"
  let ?src = "''update:'' @ path"
  from assms(3,4) have k: "getp (state t) ?k = getp (state s) ?k" and h: "heap t = heap s"
    by (simp_all add: agree_def getp_def)
  have ag: "agree (s\<lparr>heap := h'\<rparr>) (t\<lparr>heap := h'\<rparr>)" for h'
    using assms(3) by (simp add: agree_def)
  have st: "\<forall>k. k \<noteq> ''initialEnergy'' \<longrightarrow> state s k = state t k"
    using assms(3) by (simp add: agree_def)
  have S2: "agree (setState B ((state s)(?k \<mapsto> x)) src s') (setState B' ((state t)(?k \<mapsto> x)) src t')"
    if "agree s' t'" for x src s' t'
    by (rule setState_agree[OF assms(1,2) that]) (use st in simp)
  have S1: "agree (setState B (state s) src s') (setState B' (state t) src t')"
    if "agree s' t'" for src s' t'
    by (rule setState_agree[OF assms(1,2) that]) (use st in simp)
  show ?thesis
  proof (cases "tl (split_dot path) = []")
    case True
    with S2[OF assms(3), of v ?src] show ?thesis
      by (simp add: updateState_def Let_def)
  next
    case nested: False
    show ?thesis
    proof (cases "truthy (getp (state s) ?k)")
      case False
      show ?thesis
      proof (cases "assign_path (heap s @ [Map.empty]) (Ref (length (heap s))) (tl (split_dot path)) v")
        case (Inl e)
        with nested False k h assms(3) show ?thesis by (simp add: updateState_def Let_def)
      next
        case (Inr h')
        with nested False k h S2[OF ag[of h'], of "Ref (length (heap s))" ?src]
        show ?thesis by (simp add: updateState_def Let_def)
      qed
    next
      case True
      show ?thesis
      proof (cases "assign_path (heap s) (getp (state s) ?k) (tl (split_dot path)) v")
        case (Inl e)
        with nested True k h assms(3) show ?thesis by (simp add: updateState_def Let_def)
      next
        case (Inr h')
        with nested True k h S1[OF ag[of h'], of ?src]
        show ?thesis by (simp add: updateState_def Let_def)
      qed
    qed
  qed
qed

lemma debounce_agree:
  assumes "agree s t"
  shows "agree (fst (debounce timeouts field f s)) (fst (debounce timeouts field f t)) \<and>
         snd (debounce timeouts field f s) = snd (debounce timeouts field f t)"
  using assms
  by (auto simp: debounce_def try_val_def agree_def setTimeout_def clearTimeout_def Let_def
        split: sum.splits)

lemma then_do_agree:
  assumes "agree (fst r) (fst r')" "snd r = snd r'"
    "\<And>s t. agree s t \<Longrightarrow> agree (fst (f s)) (fst (f t)) \<and> snd (f s) = snd (f t)"
  shows "agree (fst (then_do r f)) (fst (then_do r' f)) \<and> snd (then_do r f) = snd (then_do r' f)"
  using assms by (cases r; cases r'; cases "snd r") (auto simp: then_do_def)

lemma updateParameter_agree:
  assumes "steady B" "steady B'" "agree s t"
  shows "agree (fst (updateParameter B param v s)) (fst (updateParameter B' param v t))"
proof -
  from assms(3) have u: "getp (getState t) ''updateTimeouts'' = getp (getState s) ''updateTimeouts''"
    by (simp add: agree_def getState_def getp_def)
  have k: "hd (split_dot (''parameters.'' @ param)) \<noteq> ''initialEnergy''"
    by (simp add: split_parameters)
  show ?thesis
    unfolding updateParameter_def Let_def u
    by (intro then_do_agree[THEN conjunct1] updateState_agree[OF assms(1,2) _ k, THEN conjunct1]
          updateState_agree[OF assms(1,2) _ k, THEN conjunct2] debounce_agree)
       (simp_all add: assms(3))
qed

lemma updateInitialCondition_agree:
  assumes "steady B" "steady B'" "agree s t"
  shows "agree (fst (updateInitialCondition B c v s)) (fst (updateInitialCondition B' c v t))"
proof -
  from assms(3) have u: "getp (getState t) ''updateTimeouts'' = getp (getState s) ''updateTimeouts''"
    by (simp add: agree_def getState_def getp_def)
  have k: "hd (split_dot (''conditions.'' @ c)) \<noteq> ''initialEnergy''"
    by (simp add: split_conditions)
  show ?thesis
    unfolding updateInitialCondition_def Let_def u
    by (intro then_do_agree[THEN conjunct1] updateState_agree[OF assms(1,2) _ k, THEN conjunct1]
          updateState_agree[OF assms(1,2) _ k, THEN conjunct2] debounce_agree)
       (simp_all add: assms(3))
qed

lemma timeout_cleanup_agree:
  assumes "steady B" "steady B'" "agree s t"
  shows "agree (timeout_cleanup B timeouts field s) (timeout_cleanup B' timeouts field t)"
proof -
  from assms(3) have h: "heap t = heap s" by (simp add: agree_def)
  have "agree (s\<lparr>heap := h'\<rparr>) (t\<lparr>heap := h'\<rparr>)" for h'
    using assms(3) by (simp add: agree_def)
  from setState_agree[OF assms(1,2) this] show ?thesis
    by (simp add: timeout_cleanup_def Let_def h)
qed

lemma fire_agree:
  assumes "steady B" "steady B'" "agree s t"
  shows "agree (fire B x s) (fire B' x t)"
proof -
  from assms(3) have tm: "timers t = timers s" and rq: "requests t = requests s"
    by (simp_all add: agree_def)
  have a: "agree (s\<lparr>timers := T, requests := R\<rparr>) (t\<lparr>timers := T, requests := R\<rparr>)" for T R
    using assms(3) by (simp add: agree_def)
  show ?thesis
    unfolding fire_def tm
    using assms(3) a
    by (cases "cb x") (auto simp: rq intro!: timeout_cleanup_agree[OF assms(1,2)])
qed

lemma fold_fire_agree:
  assumes "steady B" "steady B'"
  shows "agree s t \<Longrightarrow> agree (foldl (\<lambda>s x. fire B x s) s xs) (foldl (\<lambda>s x. fire B' x s) t xs)"
  by (induction xs arbitrary: s t) (simp_all add: fire_agree[OF assms])

lemma tick_agree:
  assumes "steady B" "steady B'" "agree s t"
  shows "agree (tick B dt s) (tick B' dt t)"
proof -
  from assms(3) have e: "timers t = timers s" "clock t = clock s" by (simp_all add: agree_def)
  have "agree (s\<lparr>clock := c\<rparr>) (t\<lparr>clock := c\<rparr>)" for c
    using assms(3) by (simp add: agree_def)
  from fold_fire_agree[OF assms(1,2) this] show ?thesis
    by (simp add: tick_def Let_def e)
qed

lemma step_agree:
  assumes "steady B" "steady B'" "agree s t"
  shows "agree (step B e s) (step B' e t)"
  by (cases e)
     (simp_all add: updateParameter_agree[OF assms] updateInitialCondition_agree[OF assms]
        tick_agree[OF assms])

lemma run_agree:
  assumes "steady B" "steady B'"
  shows "agree s t \<Longrightarrow> agree (run B es s) (run B' es t)"
  by (induction es arbitrary: s t) (simp_all add: step_agree[OF assms])


lemma stateManager_agree_bare: "agree (stateManager page) bare_page"
  by (simp add: agree_def stateManager_def subscribe_def bare_page_def)

lemmas bare_defs = bare_page_def initialState_def initialHeap_def
  updateParameter_def updateInitialCondition_def updateState_def setState_def Let_def getState_def getp_def
  parseFloat_def read_sign_def read_exponent_def pow10_def digit_val_def
  set_text_def set_input_def then_do_def try_val_def debounce_def setTimeout_def clearTimeout_def
  deref_def tick_def fire_def timeout_cleanup_def two_field_edits_def live_timers_def

lemma bare_requests:
  "requests (run (page_listener 0) (two_field_edits @ [Tick 100]) bare_page) =
     [(''/update_parameter'', ''g'', Fin 1), (''/update_parameter'', ''mass_bob_1'', Fin 5),
      (''/update_parameter'', ''g'', Fin 2), (''/update_parameter'', ''g'', Fin 3)]"
  by (simp add: bare_defs)


lemma run_timers_bare:
  "timers (run (page_listener d) es (stateManager page)) = timers (run (page_listener 0) es bare_page) \<and>
   requests (run (page_listener d) es (stateManager page)) = requests (run (page_listener 0) es bare_page)"
proof -
  have "agree (run (page_listener d) es (stateManager page)) (run (page_listener 0) es bare_page)"
    by (rule run_agree[OF page_listener_steady page_listener_steady stateManager_agree_bare])
  then show ?thesis by (simp add: agree_def)
qed

section \<open>Lemmas: bursts of edits\<close>

lemma setState_nolisteners: "listeners t = [] \<Longrightarrow> setState B ns src t = t\<lparr>state := state t ++ ns\<rparr>"
  by (simp add: setState_def Let_def)

lemma split_dot_plain: "CHR ''.'' \<notin> set f \<Longrightarrow> split_dot f = [f]"
  by (induction f) (auto split: list.splits)

lemma map_add_self [simp]: "m ++ m = m"
  by (rule ext) (simp add: map_add_def split: option.splits)

lemma updateState_parameters_bare:
  assumes "listeners t = []" "state t ''parameters'' = Some (Ref p)" "p < length (heap t)"
    "CHR ''.'' \<notin> set f"
  shows "snd (updateState B (''parameters.'' @ f) x t) = None \<and>
         heap (fst (updateState B (''parameters.'' @ f) x t)) = (heap t)[p := (heap t ! p)(f \<mapsto> x)] \<and>
         state (fst (updateState B (''parameters.'' @ f) x t)) = state t \<and>
         listeners (fst (updateState B (''parameters.'' @ f) x t)) = [] \<and>
         timers (fst (updateState B (''parameters.'' @ f) x t)) = timers t \<and>
         next_timer (fst (updateState B (''parameters.'' @ f) x t)) = next_timer t \<and>
         clock (fst (updateState B (''parameters.'' @ f) x t)) = clock t \<and>
         requests (fst (updateState B (''parameters.'' @ f) x t)) = requests t"
proof -
  have sp: "split_dot (''parameters.'' @ f) = [''parameters'', f]"
    using split_dot_prefix[of "''parameters''" f] split_dot_plain[OF assms(4)] by simp
  show ?thesis
    using assms(1,2,3)
    by (simp add: updateState_def Let_def split_dot_plain[OF assms(4)] getp_def deref_def
          setState_nolisteners)
qed

lemma debounce_bare:
  assumes "a < length (heap t)"
    "timers t = [] \<or> (\<exists>x. timers t = [x] \<and> 0 < tid x \<and> getp (heap t ! a) f = Num (Fin (of_nat (tid x))))"
    "0 < next_timer t"
  shows "snd (debounce (Ref a) f c t) = None \<and>
         timers (fst (debounce (Ref a) f c t)) = [\<lparr>tid = next_timer t, due = clock t + 100, cb = c\<rparr>] \<and>
         getp (heap (fst (debounce (Ref a) f c t)) ! a) f = Num (Fin (of_nat (next_timer t))) \<and>
         length (heap (fst (debounce (Ref a) f c t))) = length (heap t) \<and>
         state (fst (debounce (Ref a) f c t)) = state t \<and>
         listeners (fst (debounce (Ref a) f c t)) = listeners t \<and>
         next_timer (fst (debounce (Ref a) f c t)) = Suc (next_timer t) \<and>
         clock (fst (debounce (Ref a) f c t)) = clock t \<and>
         requests (fst (debounce (Ref a) f c t)) = requests t"
  using assms
  by (auto simp: debounce_def try_val_def Let_def deref_def setTimeout_def clearTimeout_def getp_def
        split: option.splits)

lemma edit_bare:
  assumes "wired a p t" "CHR ''.'' \<notin> set f"
    "timers t = [] \<or> (\<exists>x. timers t = [x] \<and> 0 < tid x \<and> getp (heap t ! a) f = Num (Fin (of_nat (tid x))))"
  shows "wired a p (fst (updateParameter B f v t)) \<and> armed a f v (fst (updateParameter B f v t)) \<and>
         requests (fst (updateParameter B f v t)) = requests t \<and>
         clock (fst (updateParameter B f v t)) = clock t"
proof -
  from assms(1) have w: "listeners t = []" "state t ''updateTimeouts'' = Some (Ref a)"
    "state t ''parameters'' = Some (Ref p)" "a < length (heap t)" "p < length (heap t)" "a \<noteq> p"
    "0 < next_timer t"
    by (simp_all add: wired_def)
  define t1 where "t1 = set_input (replace_first CHR ''_'' CHR ''-'' f @ ''-input'') (Num (parseFloat v))
               (set_text (replace_first CHR ''_'' CHR ''-'' f) (Fixed (if f = ''g'' then 1 else 0) (parseFloat v)) t)"
  have t1: "listeners t1 = []" "state t1 = state t" "heap t1 = heap t" "timers t1 = timers t"
            "next_timer t1 = next_timer t" "clock t1 = clock t" "requests t1 = requests t"
    using w(1) by (simp_all add: t1_def set_input_def set_text_def split: option.splits)
  define r where "r = updateState B (''parameters.'' @ f) (Num (parseFloat v)) t1"
  have u: "snd r = None" "heap (fst r) = (heap t)[p := (heap t ! p)(f \<mapsto> Num (parseFloat v))]"
    "state (fst r) = state t" "listeners (fst r) = []" "timers (fst r) = timers t"
    "next_timer (fst r) = next_timer t" "clock (fst r) = clock t" "requests (fst r) = requests t"
    using updateState_parameters_bare[of t1 p f B "Num (parseFloat v)"] t1 w assms(2)
    by (simp_all add: r_def)
  define t2 where "t2 = fst r"
  have r: "r = (t2, None)" using u(1) by (cases r) (simp add: t2_def)
  have ha: "heap t2 ! a = heap t ! a" "a < length (heap t2)" "length (heap t2) = length (heap t)"
    using u(2) w by (simp_all add: t2_def)
  have d3: "timers t2 = [] \<or> (\<exists>x. timers t2 = [x] \<and> 0 < tid x \<and> getp (heap t2 ! a) f = Num (Fin (of_nat (tid x))))"
    using assms(3) u(5) ha(1) by (simp add: t2_def)
  have n2: "0 < next_timer t2" using u(6) w(7) by (simp add: t2_def)
  note D = debounce_bare[OF ha(2) d3 n2, of "ParamCb f (parseFloat v) (Ref a)"]
  have up: "updateParameter B f v t = debounce (Ref a) f (ParamCb f (parseFloat v) (Ref a)) t2"
    unfolding updateParameter_def Let_def getState_def
    unfolding t1_def[symmetric] r_def[symmetric]
    using w(2) r by (simp add: getp_def then_do_def)
  show ?thesis
    unfolding up
    using D u w ha
    by (auto simp: wired_def armed_def t2_def)
qed


lemma tick_idle:
  assumes "armed a f v t" "d < 100"
  shows "tick B d t = t\<lparr>clock := clock t + d\<rparr>"
  using assms by (auto simp: tick_def Let_def armed_def)

lemma tick_fire:
  assumes "armed a f v t" "listeners t = []"
  shows "requests (tick B 100 t) = requests t @ [(''/update_parameter'', f, parseFloat v)]"
  using assms
  by (auto simp: tick_def Let_def armed_def fire_def timeout_cleanup_def setState_nolisteners)

lemma run_append: "run B (xs @ ys) s = run B ys (run B xs s)"
  by (induction xs arbitrary: s) simp_all

lemma burst_bare:
  assumes "CHR ''.'' \<notin> set f"
  shows "wired a p t \<Longrightarrow>
         timers t = [] \<or> (\<exists>x. timers t = [x] \<and> 0 < tid x \<and> getp (heap t ! a) f = Num (Fin (of_nat (tid x)))) \<Longrightarrow>
         \<forall>(d, v') \<in> set rest. d < 100 \<Longrightarrow>
         wired a p (run B (burst f v rest) t) \<and> armed a f (last_value v rest) (run B (burst f v rest) t) \<and>
         requests (run B (burst f v rest) t) = requests t"
proof (induction rest arbitrary: t v)
  case Nil
  from edit_bare[OF Nil.prems(1) assms Nil.prems(2), of B v] show ?case by simp
next
  case (Cons dv rest)
  obtain d v' where dv: "dv = (d, v')" by (cases dv)
  let ?t1 = "fst (updateParameter B f v t)"
  from edit_bare[OF Cons.prems(1) assms Cons.prems(2), of B v]
  have e: "wired a p ?t1" "armed a f v ?t1" "requests ?t1 = requests t" by simp_all
  from Cons.prems(3) dv have d: "d < 100" by simp
  let ?t2 = "?t1\<lparr>clock := clock ?t1 + d\<rparr>"
  have t2: "tick B d ?t1 = ?t2" by (rule tick_idle[OF e(2) d])
  have w2: "wired a p ?t2" using e(1) by (simp add: wired_def)
  have p2: "timers ?t2 = [] \<or> (\<exists>x. timers ?t2 = [x] \<and> 0 < tid x \<and> getp (heap ?t2 ! a) f = Num (Fin (of_nat (tid x))))"
    using e(2) by (auto simp: armed_def)
  from Cons.prems(3) have r: "\<forall>(d, v') \<in> set rest. d < 100" by simp
  from Cons.IH[OF w2 p2 r, of v'] e(3) t2 dv show ?case by simp
qed

lemma animate_second_missing:
  assumes "steady B" "recording s"
    "point_of (heap s) (getp (state s) ''latestCoords'') ''0'' = Inr p1"
    "point_of (heap s) (getp (state s) ''latestCoords'') ''1'' = Inl e"
  shows "trail1 (fst (animate B now s)) = trail1 s @ [p1] \<and> snd (animate B now s) = Some e"
  using assms(2,3,4) fps_step_frame[OF assms(1), of now s]
  by (auto simp: animate_unfold Let_def recording_def getState_def try_val_def push_def)

section \<open>Properties\<close>

text \<open>
  C9 (as the code has it). The state the script starts from has \<open>isConnected\<close> false and a
  failure counter of zero: the connection monitor starts Disconnected, not Connected.
\<close>

theorem C9_initial_disconnected:
  "getp (getState (stateManager page)) ''isConnected'' = Bool False \<and>
   getp (getState (stateManager page)) ''connectionRetries'' = Num (Fin 0)"
  by (simp add: stateManager_def subscribe_def getState_def initialState_def getp_def)

text \<open>
  C9, counterexample. The state the script builds is not Connected (here for a page
  without elements).
\<close>

theorem C9_initial_connected_counterexample:
  "\<not> truthy (getp (getState (stateManager Map.empty)) ''isConnected'')"
  by (simp add: stateManager_def subscribe_def getState_def initialState_def getp_def)










text \<open>
  C1 (as the code has it). From Connected with a failure counter of 0, \<open>n\<close> consecutive
  failed polls leave the state Connected exactly when \<open>n < 5\<close>: the fifth failure
  disconnects, none before. One successful poll from Disconnected gives Connected with
  the counter at 0. A successful poll while Connected leaves the counter as it is, and
  every failure adds one to it; so from Connected with counter \<open>c\<close> the state stays
  Connected along any sequence of polls as long as \<open>c\<close> plus the number of failures is
  below 5, whether or not successes come in between.
\<close>

theorem C1_connection_hysteresis:
  "(conn_is s True 0 \<longrightarrow>
      conn_is (polls (page_listener d) (replicate n Failed) s) (n < 5) (of_nat n)) \<and>
   (conn_is s' False c' \<and> body \<noteq> JNull \<longrightarrow>
      conn_is (pollState (page_listener d) (Ok body) s') True 0) \<and>
   (conn_is s True c \<and> body \<noteq> JNull \<longrightarrow>
      conn_is (pollState (page_listener d) (Ok body) s) True c) \<and>
   (conn_is s b c \<longrightarrow>
      conn_is (pollState (page_listener d) Failed s) (b \<and> c + 1 < 5) (c + 1)) \<and>
   (conn_is s True c \<and> c + of_nat (failures xs) < 5 \<longrightarrow>
      conn_is (polls (page_listener d) xs s) True (c + of_nat (failures xs)))"
  using polls_failed_run[OF page_listener_steady, of s d n]
    pollState_ok_conn[OF page_listener_steady, of s' False c' body d]
    pollState_ok_conn[OF page_listener_steady, of s True c body d]
    handleConnectionError_conn[OF page_listener_steady, of s b c d]
    polls_failures[OF page_listener_steady, of s c xs d]
  by (simp add: pollState_Failed)

text \<open>
  C1, witness: the page after its first successful poll (Connected, counter 0) and the
  page at load time (Disconnected, counter 0).
\<close>

theorem C1_connection_hysteresis_witness:
  "conn_is (polls (page_listener 2) (replicate 4 Failed) connected_page) True 4 \<and>
   conn_is (polls (page_listener 2) (replicate 5 Failed) connected_page) False 5 \<and>
   conn_is (pollState (page_listener 2) (Ok (JObj [])) (stateManager Map.empty)) True 0 \<and>
   conn_is (pollState (page_listener 2) (Ok (JObj [])) connected_page) True 0 \<and>
   conn_is (pollState (page_listener 2) Failed connected_page) True 1 \<and>
   conn_is (polls (page_listener 2) [Failed, Ok (JObj []), Failed, Failed] connected_page) True 3"
proof -
  note c = connected_page_conn
  note i = stateManager_conn[of Map.empty]
  have f: "failures [Failed, Ok (JObj []), Failed, Failed] = 3" by (simp add: failures_def)
  from C1_connection_hysteresis[of connected_page 2 4 "stateManager Map.empty" 0 "JObj []" 0 True
         "[Failed, Ok (JObj []), Failed, Failed]"]
       C1_connection_hysteresis[of connected_page 2 5 "stateManager Map.empty" 0 "JObj []" 0 True
         "[Failed, Ok (JObj []), Failed, Failed]"]
       c i f
  show ?thesis by simp
qed

text \<open>
  C1, counterexample. From Connected with counter 0, two failures, a success and three
  more failures end Disconnected, though no five failures are consecutive: the success
  in between left the counter at 2.
\<close>

theorem C1_interleaved_failures_counterexample:
  "conn_is connected_page True 0 \<and>
   conn_is (polls (page_listener 2) [Failed, Failed, Ok (JObj [])] connected_page) True 2 \<and>
   conn_is (polls (page_listener 2) [Failed, Failed, Ok (JObj []), Failed, Failed, Failed] connected_page) False 5"
  using connected_page_conn
    polls_monitor[OF page_listener_steady connected_page_conn, of 2 "[Failed, Failed, Ok (JObj [])]"]
    polls_monitor[OF page_listener_steady connected_page_conn, of 2 "[Failed, Failed, Ok (JObj []), Failed, Failed, Failed]"]
  by simp


text \<open>
  C3 (as the code has it). Whenever \<open>updateEnergyDisplay\<close> runs, without throwing, in a
  snapshot whose \<open>initialEnergy\<close> is a number other than 0, the error shown is
  \<open>|total - initialEnergy| / |initialEnergy| * 100\<close>, in exact arithmetic: the absolute value
  is taken of the whole quotient.
\<close>

theorem C3_conservation_error:
  assumes "getp (state s) ''latestEnergy'' = Ref a"
    and "get_prop (heap s) (Ref a) ''total'' = Num (Fin t)"
    and "getp (state s) ''initialEnergy'' = Num (Fin e0)" and "e0 \<noteq> 0"
    and "document s ''energy-error'' = Some el"
    and "snd (updateEnergyDisplay B s) = None"
  shows "map_option textContent (document (fst (updateEnergyDisplay B s)) ''energy-error'') =
           Some (FixedPct 2 (Fin (\<bar>t - e0\<bar> / \<bar>e0\<bar> * 100)))"
proof -
  let ?e = "Ref a"
  obtain s1 x1 where r1: "put_fixed ''kinetic-energy'' ?e ''kinetic'' 2 s = (s1, x1)"
    by (cases "put_fixed ''kinetic-energy'' ?e ''kinetic'' 2 s")
  obtain s2 x2 where r2: "put_fixed ''potential-energy'' ?e ''potential'' 2 s1 = (s2, x2)"
    by (cases "put_fixed ''potential-energy'' ?e ''potential'' 2 s1")
  obtain s3 x3 where r3: "put_fixed ''total-energy'' ?e ''total'' 2 s2 = (s3, x3)"
    by (cases "put_fixed ''total-energy'' ?e ''total'' 2 s2")
  from assms(1,6) r1 have x1: "x1 = None"
    by (cases x1) (simp_all add: updateEnergyDisplay_def Let_def getState_def then_do_def)
  from assms(1,6) r1 r2 x1 have x2: "x2 = None"
    by (cases x2) (simp_all add: updateEnergyDisplay_def Let_def getState_def then_do_def)
  from assms(1,6) r1 r2 r3 x1 x2 have x3: "x3 = None"
    by (cases x3) (simp_all add: updateEnergyDisplay_def Let_def getState_def then_do_def)
  from put_fixed_ok[OF r1[unfolded x1]] put_fixed_ok[OF r2[unfolded x2]] put_fixed_ok[OF r3[unfolded x3]]
  have k: "heap s3 = heap s" "state s3 = state s" "document s3 ''energy-error'' = document s ''energy-error''"
    by simp_all
  have ce: "conservationError (Num (Fin t)) (Num (Fin e0)) = Fin (\<bar>t - e0\<bar> / \<bar>e0\<bar> * 100)"
  proof -
    have "\<bar>(t - e0) / e0 * 100\<bar> = \<bar>t - e0\<bar> / \<bar>e0\<bar> * 100"
      by (simp only: abs_mult abs_divide abs_numeral)
    moreover have "conservationError (Num (Fin t)) (Num (Fin e0)) = Fin \<bar>(t - e0) / e0 * 100\<bar>"
      using assms(4) by (simp add: conservationError_def num_sub_def del: times_divide_eq_left)
    ultimately show ?thesis by (simp only:)
  qed
  show ?thesis
    using assms(1,2,3,5) r1 r2 r3 x1 x2 x3 k ce
    by (simp add: updateEnergyDisplay_def Let_def getState_def then_do_def)
qed

text \<open>C3, witness: a baseline of 80 and a reading of 100 show 25 percent.\<close>

theorem C3_conservation_error_witness:
  "map_option textContent
     (document (fst (updateEnergyDisplay (page_listener 2) (energy_page (Num (Fin 80)) 100))) ''energy-error'') =
   Some (FixedPct 2 (Fin 25))"
proof -
  have 1: "getp (state (energy_page (Num (Fin 80)) 100)) ''latestEnergy'' = Ref 3"
    by (simp add: energy_page_def getp_def)
  have 2: "get_prop (heap (energy_page (Num (Fin 80)) 100)) (Ref 3) ''total'' = Num (Fin 100)"
    by (simp add: energy_page_def getp_def deref_def initialHeap_def)
  have 3: "getp (state (energy_page (Num (Fin 80)) 100)) ''initialEnergy'' = Num (Fin 80)"
    by (simp add: energy_page_def getp_def)
  have 4: "(80::rat) \<noteq> 0" by simp
  have 5: "document (energy_page (Num (Fin 80)) 100) ''energy-error'' = Some blank"
    by (simp add: energy_page_def example_page_def)
  have 6: "snd (updateEnergyDisplay (page_listener 2) (energy_page (Num (Fin 80)) 100)) = None"
    by (simp add: eval_defs)
  from C3_conservation_error[OF 1 2 3 4 5 6] show ?thesis by simp
qed

text \<open>
  C3, counterexample. With a baseline of -100 and a reading of -90 the error shown is 10
  percent, while \<open>|total - initialEnergy| / initialEnergy * 100\<close> is -10.
\<close>

theorem C3_negative_baseline_counterexample:
  "map_option textContent
     (document (fst (updateEnergyDisplay (page_listener 2) (energy_page (Num (Fin (- 100))) (- 90)))) ''energy-error'') =
   Some (FixedPct 2 (Fin 10)) \<and>
   (10 :: rat) \<noteq> \<bar>- 90 - (- 100)\<bar> / (- 100) * 100"
  by (simp add: eval_defs)

text \<open>
  The update that captures \<open>initialEnergy\<close>. On a connected page that holds a reading of
  50 and no baseline (as when the poll that follows a reset has been merged), the
  listener stores the baseline 50; the error it then shows is computed from the snapshot
  read on entry, where \<open>initialEnergy\<close> is still \<open>null\<close>: a division by zero, shown as
  \<open>Infinity\<close>.
\<close>

lemma capture_shows_infinity:
  "map_option textContent
     (document (fst (display_listener 2 Map.empty Map.empty ''server_update'' (energy_page Null 50))) ''energy-error'') =
   Some (FixedPct 2 PInf) \<and>
   state (fst (display_listener 2 Map.empty Map.empty ''server_update'' (energy_page Null 50))) ''initialEnergy'' = Some (Num (Fin 50))"
  by (simp add: eval_defs numeral_2_eq_2)

text \<open>
  C2, at the input \<open>updateParameter("g", "3.71")\<close> on the page at load time. The
  notification of the edit carries the source \<open>update:parameters.g\<close>, not
  \<open>local_update\<close>, and the listener re-projects: the element \<open>gravity\<close>, which
  \<open>updateParameter\<close> itself does not write, shows the new value afterwards.
\<close>

theorem C2_edit_is_reprojected:
  "last_source (fst (updateParameter (page_listener 2) ''g'' ''3.71'' (stateManager example_page))) =
     ''update:parameters.g'' \<and>
   ''update:parameters.g'' \<noteq> ''local_update'' \<and>
   map_option textContent (document (stateManager example_page) ''gravity'') = Some (Lit []) \<and>
   map_option textContent
     (document (fst (updateParameter (page_listener 2) ''g'' ''3.71'' (stateManager example_page))) ''gravity'') =
     Some (Fixed 1 (Fin (371 / 100)))"
  by (simp add: eval_defs numeral_2_eq_2 last_source_def)


text \<open>
  C8. A frame that records appends the position of each body to its trail and, when
  the trail held 300 entries, drops the oldest, keeping the order of the others; a frame
  that does not record leaves the trails as they are. Hence trails of at most 300 entries
  have at most 300 entries after one frame, and after any number of frames.
\<close>

theorem C8_trail_bounded_fifo:
  "(recording s \<and> both_points s p1 p2 \<longrightarrow>
      trail1 (fst (animate (page_listener d) now s)) = evict_push p1 (trail1 s) \<and>
      trail2 (fst (animate (page_listener d) now s)) = evict_push p2 (trail2 s)) \<and>
   (\<not> recording s \<longrightarrow>
      trail1 (fst (animate (page_listener d) now s)) = trail1 s \<and>
      trail2 (fst (animate (page_listener d) now s)) = trail2 s) \<and>
   (length (trail1 s) \<le> 300 \<and> length (trail2 s) \<le> 300 \<and>
    (recording s \<longrightarrow> (\<exists>q1 q2. both_points s q1 q2)) \<longrightarrow>
      length (trail1 (fst (animate (page_listener d) now s))) \<le> 300 \<and>
      length (trail2 (fst (animate (page_listener d) now s))) \<le> 300 \<and>
      length (trail1 (frames (page_listener d) ts s)) \<le> 300 \<and>
      length (trail2 (frames (page_listener d) ts s)) \<le> 300)"
  using animate_recording[OF page_listener_steady, of s p1 p2 d now]
    animate_idle[OF page_listener_steady, of s d now]
    animate_bounded[OF page_listener_steady, of s d now]
    frames_bounded[OF page_listener_steady, of s d ts]
  by (simp add: trails_bounded_def MAX_TRAIL_def)

text \<open>C8, witness: an empty trail and a full trail, on a page with two positions.\<close>

theorem C8_trail_bounded_fifo_witness:
  "trail1 (fst (animate (page_listener 2) 16 (coords_page []))) = [(Num (Fin 1), Num (Fin 2))] \<and>
   trail2 (fst (animate (page_listener 2) 16 (coords_page (replicate 300 (Null, Null))))) =
     replicate 299 (Null, Null) @ [(Num (Fin 3), Num (Fin 4))] \<and>
   length (trail1 (frames (page_listener 2) [16, 33, 50] (coords_page (replicate 300 (Null, Null))))) \<le> 300"
proof -
  have r: "recording (coords_page t)" for t
    by (simp add: recording_def coords_page_def getp_def initialState_def)
  have b: "both_points (coords_page t) (Num (Fin 1), Num (Fin 2)) (Num (Fin 3), Num (Fin 4))" for t
    by (simp add: both_points_def coords_page_def getp_def point_of_def deref_def initialHeap_def)
  have tb: "length (trail1 (coords_page (replicate 300 (Null, Null)))) \<le> 300"
           "length (trail2 (coords_page (replicate 300 (Null, Null)))) \<le> 300"
    by (simp_all add: coords_page_trails)
  have e: "evict_push (Num (Fin 1), Num (Fin 2)) [] = [(Num (Fin 1), Num (Fin 2))]"
    by (simp add: evict_push_def MAX_TRAIL_def)
  note T1 = C8_trail_bounded_fifo[of "coords_page []" "(Num (Fin 1), Num (Fin 2))" "(Num (Fin 3), Num (Fin 4))" 2 16 "[]"]
  note T2 = C8_trail_bounded_fifo[of "coords_page (replicate 300 (Null, Null))" "(Num (Fin 1), Num (Fin 2))"
          "(Num (Fin 3), Num (Fin 4))" 2 16 "[16, 33, 50]"]
  from T1 r[of "[]"] b[of "[]"]
  have 1: "trail1 (fst (animate (page_listener 2) 16 (coords_page []))) = [(Num (Fin 1), Num (Fin 2))]"
    by (simp only: coords_page_trails e simp_thms)
  from T2 r[of "replicate 300 (Null, Null)"] b[of "replicate 300 (Null, Null)"]
  have 2: "trail2 (fst (animate (page_listener 2) 16 (coords_page (replicate 300 (Null, Null))))) =
     replicate 299 (Null, Null) @ [(Num (Fin 3), Num (Fin 4))]"
    by (simp only: coords_page_trails evict_full simp_thms)
  have ex: "\<exists>q1 q2. both_points (coords_page (replicate 300 (Null, Null))) q1 q2"
    using b by blast
  from T2 tb ex
  have 3: "length (trail1 (frames (page_listener 2) [16, 33, 50] (coords_page (replicate 300 (Null, Null))))) \<le> 300"
    by (simp only: simp_thms)
  from 1 2 3 show ?thesis by (simp only: simp_thms)
qed


text \<open>
  C5, at the events \<open>two_field_edits\<close> on the page at load time. After the last edit two
  timers of the field \<open>g\<close> are pending, those started at 120 ms and at 160 ms: the
  callback of \<open>mass_bob_1\<close>, fired at 150 ms, installed a copy of the \<open>timeouts\<close> object it
  had closed over at 50 ms, in which \<open>g\<close> still holds the handle of the timer that fired at
  100 ms; the edit at 160 ms clears that handle and not the pending timer.
\<close>

theorem C5_two_live_timers_for_one_field:
  "map tid (live_timers ''g'' (run (page_listener 2) two_field_edits (stateManager example_page))) = [3, 4]"
proof -
  have "map tid (live_timers ''g'' (run (page_listener 0) two_field_edits bare_page)) = [3, 4]"
    by (simp add: bare_defs)
  then show ?thesis
    using run_timers_bare[of 2 two_field_edits example_page] by (simp add: live_timers_def)
qed

text \<open>
  C4, at the same events followed by 100 ms without input. The two edits of \<open>g\<close> made
  40 ms apart (values 2 and 3) each send their own request.
\<close>

theorem C4_rapid_edits_two_requests:
  "requests (run (page_listener 2) (two_field_edits @ [Tick 100]) (stateManager example_page)) =
     [(''/update_parameter'', ''g'', Fin 1), (''/update_parameter'', ''mass_bob_1'', Fin 5),
      (''/update_parameter'', ''g'', Fin 2), (''/update_parameter'', ''g'', Fin 3)]"
  using bare_requests run_timers_bare[of 2 "two_field_edits @ [Tick 100]" example_page]
  by simp


section \<open>Further properties of the dispatcher and of the trails\<close>

text \<open>
  On a page with no pending timer, a burst of edits of one parameter, each less than
  100 ms after the one before, followed by 100 ms without input, sends one request: the
  last value. This holds in particular at load time.
\<close>

lemma burst_coalesces:
  assumes "steady B" "CHR ''.'' \<notin> set f"
    "state s ''updateTimeouts'' = Some (Ref a)" "state s ''parameters'' = Some (Ref p)"
    "a < length (heap s)" "p < length (heap s)" "a \<noteq> p" "0 < next_timer s" "timers s = []"
    "\<forall>(d, v') \<in> set rest. d < 100"
  shows "requests (run B (burst f v rest @ [Tick 100]) s) =
           requests s @ [(''/update_parameter'', f, parseFloat (last_value v rest))]"
proof -
  let ?t = "s\<lparr>listeners := []\<rparr>"
  have ag: "agree s ?t" by (simp add: agree_def)
  have w: "wired a p ?t" using assms(3-8) by (simp add: wired_def)
  have q: "timers ?t = [] \<or> (\<exists>x. timers ?t = [x] \<and> 0 < tid x \<and> getp (heap ?t ! a) f = Num (Fin (of_nat (tid x))))"
    using assms(9) by simp
  from burst_bare[OF assms(2) w q assms(10), of B v]
  have b: "armed a f (last_value v rest) (run B (burst f v rest) ?t)"
    "listeners (run B (burst f v rest) ?t) = []"
    "requests (run B (burst f v rest) ?t) = requests s"
    by (simp_all add: wired_def)
  from tick_fire[OF b(1,2), of B] b(3)
  have "requests (run B (burst f v rest @ [Tick 100]) ?t) =
          requests s @ [(''/update_parameter'', f, parseFloat (last_value v rest))]"
    by (simp add: run_append)
  moreover have "agree (run B (burst f v rest @ [Tick 100]) s) (run B (burst f v rest @ [Tick 100]) ?t)"
    by (rule run_agree[OF assms(1) assms(1) ag])
  ultimately show ?thesis by (simp add: agree_def)
qed

lemma burst_coalesces_at_load:
  assumes "CHR ''.'' \<notin> set f" "\<forall>(d, v') \<in> set rest. d < 100"
  shows "requests (run (page_listener d) (burst f v rest @ [Tick 100]) (stateManager page)) =
           [(''/update_parameter'', f, parseFloat (last_value v rest))]"
  using burst_coalesces[OF page_listener_steady assms(1), of "stateManager page" 0 1 rest d v] assms(2)
  by (simp add: stateManager_def subscribe_def initialState_def initialHeap_def)


text \<open>
  Edits of two fields in one window: each field sends one request to its own endpoint,
  the parameter its last value.
\<close>

lemma distinct_fields_independent:
  "requests (run (page_listener 2) two_fields_one_window (stateManager example_page)) =
     [(''/update_initial_condition'', ''theta_1'', Fin (1 / 2)),
      (''/update_parameter'', ''g'', Fin (93 / 25))]"
proof -
  have "requests (run (page_listener 0) two_fields_one_window bare_page) =
     [(''/update_initial_condition'', ''theta_1'', Fin (1 / 2)),
      (''/update_parameter'', ''g'', Fin (93 / 25))]"
    by (simp add: bare_defs two_fields_one_window_def)
  then show ?thesis using run_timers_bare[of 2 two_fields_one_window example_page] by simp
qed

text \<open>
  When the coordinates hold one position only, the frame appends to the first trail and
  throws before the length check: on a full trail this leaves 301 entries, and the
  animation loop ends.
\<close>

lemma one_position_overflows:
  "length (trail1 (fst (animate (page_listener 2) 16 (one_position_page (replicate 300 (Null, Null)))))) = 301 \<and>
   snd (animate (page_listener 2) 16 (one_position_page (replicate 300 (Null, Null)))) = Some TypeError"
proof -
  have r: "recording (one_position_page t)" for t
    by (simp add: recording_def one_position_page_def getp_def initialState_def)
  have a: "point_of (heap (one_position_page t)) (getp (state (one_position_page t)) ''latestCoords'') ''0'' =
             Inr (Num (Fin 1), Num (Fin 2))" for t
    by (simp add: one_position_page_def getp_def point_of_def deref_def initialHeap_def)
  have b: "point_of (heap (one_position_page t)) (getp (state (one_position_page t)) ''latestCoords'') ''1'' =
             Inl TypeError" for t
    by (simp add: one_position_page_def getp_def point_of_def deref_def initialHeap_def)
  have t: "trail1 (one_position_page t) = t" for t by (simp add: one_position_page_def)
  have "trail1 (fst (animate (page_listener 2) 16 (one_position_page (replicate 300 (Null, Null))))) =
          trail1 (one_position_page (replicate 300 (Null, Null))) @ [(Num (Fin 1), Num (Fin 2))] \<and>
        snd (animate (page_listener 2) 16 (one_position_page (replicate 300 (Null, Null)))) = Some TypeError"
    by (rule animate_second_missing[OF page_listener_steady r a b])
  then show ?thesis by (simp add: t)
qed


end
